theory Spec2Isabelle
  imports Main "HOL-Library.AList" "HOL-Library.Char_ord" "HOL-Library.List_Lexorder"
    "HOL-Library.Product_Lexorder"
begin

section \<open>Cells, rows and frames\<close>

text \<open>
  A pandas cell is modelled as missing (\<open>NaN\<close>), a text (\<open>Str\<close>) or an integer
  (\<open>Num\<close>). Strings are byte strings: a Python string is read as its UTF-8 encoding,
  on which substring search, replacement and the code-point order of Python agree with
  the byte-wise ones. Whitespace is the set of code points that Python's \<open>str.split\<close>
  and \<open>str.strip\<close> take as blank, each in its UTF-8 encoding. Upper-casing is exact on
  ASCII; the upper-case mapping of the code points beyond ASCII is a table of the Unicode
  database, which the model takes as the parameter \<open>unicode_upper\<close>.
\<close>

datatype cell = NaN | Str string | Num int

datatype py_error = IndexError | ValueError | TypeError | MissingColumn

type_synonym row = "(string \<times> cell) list"

record frame =
  columns :: "string list"
  rows :: "row list"

text \<open>Reading column \<open>c\<close> of a row; a column the row does not carry reads as \<open>NaN\<close>
  (what \<open>pd.concat\<close> fills in for columns of the other frame).\<close>

definition get_cell :: "row \<Rightarrow> string \<Rightarrow> cell" where
  "get_cell r c = (case map_of r c of Some v \<Rightarrow> v | None \<Rightarrow> NaN)"

definition col :: "frame \<Rightarrow> string \<Rightarrow> cell list" where
  "col df c = map (\<lambda>r. get_cell r c) (rows df)"

definition isna :: "cell \<Rightarrow> bool" where
  "isna c = (c = NaN)"

definition dropna :: "cell list \<Rightarrow> cell list" where
  "dropna cs = filter (\<lambda>c. \<not> isna c) cs"

text \<open>\<open>df.empty\<close>: one of the two axes has length 0.\<close>

definition empty_frame :: "frame \<Rightarrow> bool" where
  "empty_frame df = (rows df = [] \<or> columns df = [])"

section \<open>Python strings\<close>

function str_of_nat :: "nat \<Rightarrow> string" where
  "str_of_nat n =
     (if n < 10 then [char_of (48 + n)]
      else str_of_nat (n div 10) @ [char_of (48 + n mod 10)])"
  by pat_completeness auto
termination
  by (relation "measure id") auto

text \<open>\<open>str(x)\<close> of a non-missing cell.\<close>

fun py_str :: "cell \<Rightarrow> string" where
  "py_str (Str s) = s"
| "py_str (Num n) = (if n < 0 then CHR ''-'' # str_of_nat (nat (- n)) else str_of_nat (nat n))"
| "py_str NaN = ''nan''"

text \<open>Truthiness of a cell value (\<open>if client_name\<close>).\<close>

fun truthy :: "cell \<Rightarrow> bool" where
  "truthy (Str s) = (s \<noteq> [])"
| "truthy (Num n) = (n \<noteq> 0)"
| "truthy NaN = True"

text \<open>The whitespace code points of Python strings, in UTF-8: U+0009 to U+000D, U+001C
  to U+0020, U+0085, U+00A0, U+1680, U+2000 to U+200A, U+2028, U+2029, U+202F, U+205F
  and U+3000.\<close>

definition whitespace :: "string list" where
  "whitespace =
     [[CHR 0x09], [CHR 0x0A], [CHR 0x0B], [CHR 0x0C], [CHR 0x0D],
      [CHR 0x1C], [CHR 0x1D], [CHR 0x1E], [CHR 0x1F], [CHR 0x20],
      [CHR 0xC2, CHR 0x85], [CHR 0xC2, CHR 0xA0], [CHR 0xE1, CHR 0x9A, CHR 0x80],
      [CHR 0xE2, CHR 0x80, CHR 0x80], [CHR 0xE2, CHR 0x80, CHR 0x81],
      [CHR 0xE2, CHR 0x80, CHR 0x82], [CHR 0xE2, CHR 0x80, CHR 0x83],
      [CHR 0xE2, CHR 0x80, CHR 0x84], [CHR 0xE2, CHR 0x80, CHR 0x85],
      [CHR 0xE2, CHR 0x80, CHR 0x86], [CHR 0xE2, CHR 0x80, CHR 0x87],
      [CHR 0xE2, CHR 0x80, CHR 0x88], [CHR 0xE2, CHR 0x80, CHR 0x89],
      [CHR 0xE2, CHR 0x80, CHR 0x8A], [CHR 0xE2, CHR 0x80, CHR 0xA8],
      [CHR 0xE2, CHR 0x80, CHR 0xA9], [CHR 0xE2, CHR 0x80, CHR 0xAF],
      [CHR 0xE2, CHR 0x81, CHR 0x9F], [CHR 0xE3, CHR 0x80, CHR 0x80]]"

fun starts_with :: "string \<Rightarrow> string \<Rightarrow> bool" where
  "starts_with [] s = True"
| "starts_with (k # ks) [] = False"
| "starts_with (k # ks) (c # cs) = (k = c \<and> starts_with ks cs)"

text \<open>The number of bytes of the whitespace code point a string starts with, 0 when it
  starts with none.\<close>

definition ws_len :: "string \<Rightarrow> nat" where
  "ws_len s = (case filter (\<lambda>w. starts_with w s) whitespace of [] \<Rightarrow> 0 | w # _ \<Rightarrow> length w)"

text \<open>\<open>k in s\<close> on strings.\<close>

fun contains :: "string \<Rightarrow> string \<Rightarrow> bool" where
  "contains k [] = (k = [])"
| "contains k (c # cs) = (starts_with k (c # cs) \<or> contains k cs)"

text \<open>A byte from 0x80 to 0xBF continues the code point before it.\<close>

definition is_continuation :: "char \<Rightarrow> bool" where
  "is_continuation c = (let b = (of_char c :: nat) in 128 \<le> b \<and> b < 192)"

definition upper_char :: "char \<Rightarrow> char" where
  "upper_char c = (let n = (of_char c :: nat) in if 97 \<le> n \<and> n \<le> 122 then char_of (n - 32) else c)"

text \<open>\<open>s.upper()\<close>, code point by code point: an ASCII letter by \<open>upper_char\<close>, a code
  point beyond ASCII (collected in \<open>cp\<close>) by the table \<open>unicode_upper\<close>, which gives the
  UTF-8 encoding of the upper case of a code point.\<close>

fun upper_from :: "(string \<Rightarrow> string) \<Rightarrow> string \<Rightarrow> string \<Rightarrow> string" where
  "upper_from unicode_upper cp [] = (if cp = [] then [] else unicode_upper cp)"
| "upper_from unicode_upper cp (c # cs) =
     (if is_continuation c then upper_from unicode_upper (cp @ [c]) cs
      else (if cp = [] then [] else unicode_upper cp) @
           (if (of_char c :: nat) < 128 then upper_char c # upper_from unicode_upper [] cs
            else upper_from unicode_upper [c] cs))"

definition upper :: "(string \<Rightarrow> string) \<Rightarrow> string \<Rightarrow> string" where
  "upper unicode_upper s = upper_from unicode_upper [] s"

text \<open>\<open>s.split()\<close> without argument: the maximal runs of code points that are not
  whitespace. \<open>skip\<close> counts the bytes still to drop of the whitespace code point being
  passed.\<close>

fun split_ws :: "string \<Rightarrow> nat \<Rightarrow> string \<Rightarrow> string list" where
  "split_ws acc skip [] = (if acc = [] then [] else [acc])"
| "split_ws acc skip (c # cs) =
     (if 0 < skip then split_ws acc (skip - 1) cs
      else if 0 < ws_len (c # cs) then
        (if acc = [] then split_ws [] (ws_len (c # cs) - 1) cs
         else acc # split_ws [] (ws_len (c # cs) - 1) cs)
      else split_ws (acc @ [c]) 0 cs)"

definition split :: "string \<Rightarrow> string list" where
  "split s = split_ws [] 0 s"

text \<open>\<open>s.lstrip()\<close>, \<open>s.rstrip()\<close> and \<open>s.strip()\<close>: the whitespace code points are taken
  off the front, off the end (the longest suffix that is all whitespace), off both.\<close>

fun lstrip_from :: "nat \<Rightarrow> string \<Rightarrow> string" where
  "lstrip_from skip [] = []"
| "lstrip_from skip (c # cs) =
     (if 0 < skip then lstrip_from (skip - 1) cs
      else if 0 < ws_len (c # cs) then lstrip_from (ws_len (c # cs) - 1) cs
      else c # cs)"

definition lstrip :: "string \<Rightarrow> string" where
  "lstrip s = lstrip_from 0 s"

fun rstrip :: "string \<Rightarrow> string" where
  "rstrip [] = []"
| "rstrip (c # cs) = (if lstrip (c # cs) = [] then [] else c # rstrip cs)"

definition strip :: "string \<Rightarrow> string" where
  "strip s = rstrip (lstrip s)"

section \<open>Client short names\<close>

definition short_name_map :: "(string \<times> string) list" where
  "short_name_map =
     [(''SJS'', ''SJS''), (''KTMSS'', ''KTMSS''), (''HKWDA'', ''HKWDA''),
      (''PLK'', ''PLK''), (''YOT'', ''YOT''), (''SIS'', ''SIS'')]"

text \<open>The \<open>for key in short_name_map\<close> loop: the value of the first key found in the
  upper-cased name.\<close>

fun first_match :: "(string \<times> string) list \<Rightarrow> string \<Rightarrow> string option" where
  "first_match [] s = None"
| "first_match ((k, v) # kvs) s = (if contains k s then Some v else first_match kvs s)"

definition get_client_short_name :: "(string \<Rightarrow> string) \<Rightarrow> cell \<Rightarrow> py_error + string" where
  "get_client_short_name unicode_upper client_name =
     (if isna client_name then Inr ''Unknown''
      else case first_match short_name_map (upper unicode_upper (py_str client_name)) of
             Some v \<Rightarrow> Inr v
           | None \<Rightarrow>
               (if truthy client_name then
                  (case split (py_str client_name) of
                     [] \<Rightarrow> Inl IndexError
                   | tok # _ \<Rightarrow> Inr tok)
                else Inr ''Unknown''))"

section \<open>Category enrichment\<close>

definition fillna :: "cell \<Rightarrow> cell \<Rightarrow> cell" where
  "fillna v c = (if isna c then v else c)"

text \<open>The lookup key of a row: \<open>df['ShopName'].fillna('').astype(str).str.strip()\<close>.\<close>

definition merchant_key :: "row \<Rightarrow> string" where
  "merchant_key r = strip (py_str (fillna (Str []) (get_cell r ''ShopName'')))"

definition set_cell :: "row \<Rightarrow> string \<Rightarrow> cell \<Rightarrow> row" where
  "set_cell r c v = AList.update c v r"

definition add_sales_category :: "frame \<Rightarrow> (string \<rightharpoonup> string) \<Rightarrow> py_error + frame" where
  "add_sales_category df sales_category_mapping =
     (if ''ShopName'' \<notin> set (columns df) then Inl MissingColumn
      else Inr \<lparr>columns =
                 (if ''Sales Category'' \<notin> set (columns df) then columns df @ [''Sales Category'']
                  else columns df),
               rows = map (\<lambda>r. set_cell r ''Sales Category''
                         (Str (case sales_category_mapping (merchant_key r) of
                                 Some c \<Rightarrow> c | None \<Rightarrow> [])))
                       (rows df)\<rparr>)"

section \<open>Market column resolution\<close>

text \<open>The \<open>if\<close>/\<open>elif\<close> chain of \<open>generate_used_market_table\<close>.\<close>

definition used_market_col :: "string list \<Rightarrow> string option" where
  "used_market_col cols =
     (if ''Market'' \<in> set cols then Some ''Market''
      else if ''NameChinese'' \<in> set cols then Some ''NameChinese''
      else if ''MarketCode'' \<in> set cols then Some ''MarketCode''
      else None)"

text \<open>The chain of \<open>generate_pivot_worksheet\<close>.\<close>

definition pivot_market_col :: "string list \<Rightarrow> string option" where
  "pivot_market_col cols =
     (if ''NameChinese'' \<in> set cols then Some ''NameChinese''
      else if ''Market'' \<in> set cols then Some ''Market''
      else if ''MarketCode'' \<in> set cols then Some ''MarketCode''
      else None)"

text \<open>The chain of \<open>generate_market_worksheets\<close>.\<close>

definition worksheets_market_col :: "string list \<Rightarrow> string option" where
  "worksheets_market_col cols =
     (if ''NameChinese'' \<in> set cols then Some ''NameChinese''
      else if ''Market'' \<in> set cols then Some ''Market''
      else if ''MarketCode'' \<in> set cols then Some ''MarketCode''
      else None)"

section \<open>The request pipeline\<close>

definition lower_char :: "char \<Rightarrow> char" where
  "lower_char c = (let n = (of_char c :: nat) in if 65 \<le> n \<and> n \<le> 90 then char_of (n + 32) else c)"

definition lower :: "string \<Rightarrow> string" where
  "lower s = map lower_char s"

text \<open>\<open>filename.rsplit('.', 1)[1]\<close>, for a file name that contains a dot.\<close>

definition extension :: "string \<Rightarrow> string" where
  "extension filename = rev (takeWhile (\<lambda>c. c \<noteq> CHR ''.'') (rev filename))"

definition allowed_file :: "string \<Rightarrow> bool" where
  "allowed_file filename =
     (CHR ''.'' \<in> set filename \<and> lower (extension filename) \<in> {''xlsx'', ''xls'', ''csv''})"

text \<open>\<open>pd.concat(dfs, ignore_index=True)\<close>: the rows one after the other, the columns
  in the order first seen.\<close>

definition concat_frames :: "frame list \<Rightarrow> frame" where
  "concat_frames dfs =
     \<lparr>columns = rev (remdups (rev (concat (map columns dfs)))),
      rows = concat (map rows dfs)\<rparr>"

text \<open>The loop over the uploaded market files. What reading a file gives (a frame, or
  an error) is an input of the model; a file that is not allowed is skipped, a file
  whose reading or enrichment fails is logged and skipped.\<close>

fun process_market_files ::
  "(string \<times> (py_error + frame)) list \<Rightarrow> (string \<rightharpoonup> string) \<Rightarrow> frame list" where
  "process_market_files [] m = []"
| "process_market_files ((filename, content) # files) m =
     (if \<not> allowed_file filename then process_market_files files m
      else case content of
             Inl e \<Rightarrow> process_market_files files m
           | Inr df \<Rightarrow>
               (case add_sales_category df m of
                  Inl e \<Rightarrow> process_market_files files m
                | Inr df' \<Rightarrow> df' # process_market_files files m))"

record response =
  total_records :: nat
  previous_records :: nat
  new_records :: nat
  market_files_processed :: nat

datatype reply = Reply400 string | Reply200 response

text \<open>\<open>process_reports\<close> from the point where the category mapping and the summary
  sheet have been read. The generated tables and the written workbook are not part of
  this model of the reply.\<close>

definition process_reports ::
  "frame \<Rightarrow> (string \<times> (py_error + frame)) list \<Rightarrow> (string \<rightharpoonup> string) \<Rightarrow> reply" where
  "process_reports daily_finance_df market_files sales_category_mapping =
     (let previous_daily_count = length (rows daily_finance_df);
          all_market_data = process_market_files market_files sales_category_mapping
      in if all_market_data = [] then Reply400 ''No valid market reports processed''
         else
           (let combined_market_df = concat_frames all_market_data;
                new_records_count = length (rows combined_market_df);
                final_daily_finance_df = concat_frames [daily_finance_df, combined_market_df]
            in Reply200 \<lparr>total_records = length (rows final_daily_finance_df),
                         previous_records = previous_daily_count,
                         new_records = new_records_count,
                         market_files_processed = length all_market_data\<rparr>))"

section \<open>Counting aggregators\<close>

text \<open>\<open>unique()\<close>: the distinct values in the order first seen.\<close>

definition unique :: "'a list \<Rightarrow> 'a list" where
  "unique xs = rev (remdups (rev xs))"

text \<open>\<open>sort_values(ascending=False)\<close> on a series of counts. The order pandas gives
  to equal counts is not fixed by its default sort; the model keeps them in their
  input order.\<close>

definition sort_values_desc :: "('a \<times> nat) list \<Rightarrow> ('a \<times> nat) list" where
  "sort_values_desc xs = sort_key (\<lambda>p. - int (snd p)) xs"

text \<open>\<open>value_counts()\<close>: the count of every non-missing value, largest count first.\<close>

definition value_counts :: "cell list \<Rightarrow> (cell \<times> nat) list" where
  "value_counts cs = sort_values_desc (map (\<lambda>v. (v, count_list cs v)) (unique (dropna cs)))"

text \<open>The order in which \<open>groupby\<close> sorts its keys: integers before texts.\<close>

fun cell_key :: "cell \<Rightarrow> nat \<times> int \<times> string" where
  "cell_key (Num n) = (0, n, [])"
| "cell_key (Str s) = (1, 0, s)"
| "cell_key NaN = (2, 0, [])"

definition sorted_keys :: "cell list \<Rightarrow> cell list" where
  "sorted_keys cs = sort_key cell_key (remdups (dropna cs))"

text \<open>\<open>groupby(c).size()\<close>: one entry per non-missing key, in key order.\<close>

definition groupby_size :: "cell list \<Rightarrow> (cell \<times> nat) list" where
  "groupby_size cs = map (\<lambda>k. (k, count_list cs k)) (sorted_keys cs)"

record count_table =
  title :: string
  data :: "(cell \<times> nat) list"
  tcolumns :: "string list"

record results =
  weekly :: "count_table option"
  all_records :: "count_table option"

text \<open>\<open>results if results else None\<close>.\<close>

definition nonempty_results :: "results \<Rightarrow> results option" where
  "nonempty_results res = (if weekly res = None \<and> all_records res = None then None else Some res)"

definition used_market_part :: "string \<Rightarrow> frame \<Rightarrow> count_table option" where
  "used_market_part t df =
     (case used_market_col (columns df) of
        None \<Rightarrow> None
      | Some market_col \<Rightarrow>
          if empty_frame df then None
          else Some \<lparr>title = t,
                     data = sort_values_desc (value_counts (col df market_col)),
                     tcolumns = [''Market'', ''No. of Coupon Used'']\<rparr>)"

definition generate_used_market_table :: "frame \<Rightarrow> frame \<Rightarrow> results option" where
  "generate_used_market_table weekly_df daily_df =
     nonempty_results
       \<lparr>weekly = used_market_part ''Used Market (Weekly)'' weekly_df,
        all_records = used_market_part ''Used Market (All Records)'' daily_df\<rparr>"

definition top_merchant_part :: "string \<Rightarrow> frame \<Rightarrow> count_table option" where
  "top_merchant_part t df =
     (if ''ShopName'' \<notin> set (columns df) \<or> empty_frame df then None
      else Some \<lparr>title = t,
                 data = sort_values_desc (take 15 (value_counts (col df ''ShopName''))),
                 tcolumns = [''Merchant'', ''No. of Coupon Used'']\<rparr>)"

definition generate_top_merchant_table :: "frame \<Rightarrow> frame \<Rightarrow> results option" where
  "generate_top_merchant_table weekly_df daily_df =
     nonempty_results
       \<lparr>weekly = top_merchant_part ''Top Merchant (Weekly)'' weekly_df,
        all_records = top_merchant_part ''Top Merchant (All Records)'' daily_df\<rparr>"

section \<open>Coupons by client\<close>

text \<open>The short names of the grouped client names, \<open>[get_client_short_name(c) for c in
  index]\<close>: the first error ends the comprehension.\<close>

fun short_names :: "(string \<Rightarrow> string) \<Rightarrow> cell list \<Rightarrow> py_error + string list" where
  "short_names unicode_upper [] = Inr []"
| "short_names unicode_upper (c # cs) =
     (case get_client_short_name unicode_upper c of
        Inl e \<Rightarrow> Inl e
      | Inr s \<Rightarrow>
          (case short_names unicode_upper cs of Inl e \<Rightarrow> Inl e | Inr ss \<Rightarrow> Inr (s # ss)))"

record distributed_row =
  Client :: string
  Used :: nat
  Unused :: nat
  Total :: nat

record distributed_table =
  dtitle :: string
  ddata :: "distributed_row list"
  dcolumns :: "string list"

text \<open>An exception inside the \<open>try\<close> block is caught and gives \<open>None\<close>.\<close>

definition generate_distributed_coupon_table ::
  "(string \<Rightarrow> string) \<Rightarrow> frame \<Rightarrow> distributed_table option" where
  "generate_distributed_coupon_table unicode_upper weekly_df =
     (if empty_frame weekly_df \<or> ''client_name'' \<notin> set (columns weekly_df) then None
      else
        (let total_by_client = groupby_size (col weekly_df ''client_name'');
             used_by_client = groupby_size (col weekly_df ''client_name'')
         in case short_names unicode_upper (map fst total_by_client) of
              Inl e \<Rightarrow> None
            | Inr clients \<Rightarrow>
                Some \<lparr>dtitle = ''No. of Distributed Coupon'',
                      ddata = map (\<lambda>(c, u). \<lparr>Client = c, Used = u, Unused = 0, Total = u\<rparr>)
                                (zip clients (map snd used_by_client)),
                      dcolumns = [''Client'', ''Used'', ''Unused'', ''Total'']\<rparr>))"

text \<open>The key pairs of \<open>groupby(['client_name', value_col])\<close>: rows in which either key
  is missing are left out of every group.\<close>

definition key_pairs :: "frame \<Rightarrow> string \<Rightarrow> (cell \<times> cell) list" where
  "key_pairs df value_col =
     filter (\<lambda>(n, v). \<not> isna n \<and> \<not> isna v)
       (map (\<lambda>r. (get_cell r ''client_name'', get_cell r value_col)) (rows df))"

text \<open>\<open>.size().unstack(fill_value=0)\<close>: one row per client name, one column per coupon
  value, both in key order; a pair that does not occur counts 0.\<close>

definition unstack_counts :: "(cell \<times> cell) list \<Rightarrow> (cell \<times> (cell \<times> nat) list) list" where
  "unstack_counts ps =
     map (\<lambda>i. (i, map (\<lambda>c. (c, count_list ps (i, c))) (sorted_keys (map snd ps))))
       (sorted_keys (map fst ps))"

text \<open>\<open>to_dict('index')\<close> raises \<open>ValueError\<close> when the index labels are not unique.\<close>

definition to_dict_index :: "'k list \<Rightarrow> 'v list \<Rightarrow> py_error + ('k \<times> 'v) list" where
  "to_dict_index labels vals = (if distinct labels then Inr (zip labels vals) else Inl ValueError)"

text \<open>The column labels after \<open>reset_index()\<close>: the index becomes a column \<open>index\<close>,
  or \<open>level_0\<close> when there is a column \<open>index\<close> already; inserting a label that
  exists raises \<open>ValueError\<close>.\<close>

definition reset_index_columns :: "cell list \<Rightarrow> py_error + cell list" where
  "reset_index_columns cols =
     (if Str ''index'' \<notin> set cols then Inr (Str ''index'' # cols)
      else if Str ''level_0'' \<notin> set cols then Inr (Str ''level_0'' # cols)
      else Inl ValueError)"

text \<open>\<open>rename(columns={'index': 'Client'})\<close>.\<close>

definition rename_index :: "cell list \<Rightarrow> cell list" where
  "rename_index cols = map (\<lambda>c. if c = Str ''index'' then Str ''Client'' else c) cols"

record coupon_table =
  ctitle :: string
  cdata :: "(string \<times> (cell \<times> nat) list) list"
  ccolumns :: "cell list"

definition coupon_value_col :: "string list \<Rightarrow> string" where
  "coupon_value_col cols = (if ''CouponValue'' \<in> set cols then ''CouponValue'' else ''coupon_amount'')"

definition generate_coupon_purchased_table ::
  "(string \<Rightarrow> string) \<Rightarrow> frame \<Rightarrow> coupon_table option" where
  "generate_coupon_purchased_table unicode_upper weekly_df =
     (if empty_frame weekly_df \<or> ''client_name'' \<notin> set (columns weekly_df) then None
      else
        (let value_col = coupon_value_col (columns weekly_df)
         in if value_col \<notin> set (columns weekly_df) then None
            else
              (let coupon_data = unstack_counts (key_pairs weekly_df value_col)
               in case short_names unicode_upper (map fst coupon_data) of
                    Inl e \<Rightarrow> None
                  | Inr index \<Rightarrow>
                      (case reset_index_columns
                              (sorted_keys (map snd (key_pairs weekly_df value_col))) of
                         Inl e \<Rightarrow> None
                       | Inr reset_columns \<Rightarrow>
                           (case to_dict_index index (map snd coupon_data) of
                              Inl e \<Rightarrow> None
                            | Inr table_dict \<Rightarrow>
                                Some \<lparr>ctitle = ''No. of Coupon Purchased'',
                                      cdata = table_dict,
                                      ccolumns = rename_index reset_columns\<rparr>)))))"

text \<open>The tables a result holds, \<open>weekly\<close> before \<open>all\<close>.\<close>

definition tables_of :: "results option \<Rightarrow> count_table list" where
  "tables_of res =
     (case res of None \<Rightarrow> []
      | Some r \<Rightarrow> (case weekly r of None \<Rightarrow> [] | Some t \<Rightarrow> [t]) @
                  (case all_records r of None \<Rightarrow> [] | Some t \<Rightarrow> [t]))"

text \<open>A row-set of two rows, in two markets and at two merchants.\<close>

definition two_markets :: frame where
  "two_markets = \<lparr>columns = [''Market'', ''ShopName''],
     rows = [[(''Market'', Str ''A''), (''ShopName'', Str ''S1'')],
             [(''Market'', Str ''B''), (''ShopName'', Str ''S2'')]]\<rparr>"

text \<open>The number of batch rows whose derived short name is \<open>client\<close>, in the words of
  the specification.\<close>

definition short_name_rows :: "(string \<Rightarrow> string) \<Rightarrow> frame \<Rightarrow> string \<Rightarrow> nat" where
  "short_name_rows unicode_upper df client =
     length (filter (\<lambda>r. get_client_short_name unicode_upper (get_cell r ''client_name'') = Inr client)
       (rows df))"

text \<open>A batch in which two client names share the abbreviation SJS, and one row has
  no client name.\<close>

definition sjs_batch :: frame where
  "sjs_batch = \<lparr>columns = [''client_name'', ''CouponValue''],
     rows = [[(''client_name'', Str ''SJS Centre A''), (''CouponValue'', Num 10)],
             [(''client_name'', Str ''sjs centre B''), (''CouponValue'', Num 10)],
             [(''client_name'', Str ''ShopA Ltd''), (''CouponValue'', Num 10)],
             [(''client_name'', Str ''ShopA Ltd''), (''CouponValue'', Num 20)],
             [(''client_name'', NaN), (''CouponValue'', Num 20)]]\<rparr>"

text \<open>A row takes part in the grouping when neither key is missing.\<close>

definition present :: "string \<Rightarrow> row \<Rightarrow> bool" where
  "present value_col r = (\<not> isna (get_cell r ''client_name'') \<and> \<not> isna (get_cell r value_col))"

text \<open>The number of rows that take part, have short name \<open>client\<close> and coupon value
  \<open>v\<close>.\<close>

definition pair_rows ::
  "(string \<Rightarrow> string) \<Rightarrow> frame \<Rightarrow> string \<Rightarrow> string \<Rightarrow> cell \<Rightarrow> nat" where
  "pair_rows unicode_upper df value_col client v =
     length (filter (\<lambda>r. present value_col r \<and>
                get_client_short_name unicode_upper (get_cell r ''client_name'') = Inr client \<and>
                get_cell r value_col = v) (rows df))"

text \<open>The cell \<open>data[client][v]\<close> of the table, when the table has it.\<close>

definition table_cell :: "coupon_table \<Rightarrow> string \<Rightarrow> cell \<Rightarrow> nat option" where
  "table_cell t client v =
     (case map_of (cdata t) client of None \<Rightarrow> None | Some r \<Rightarrow> map_of r v)"


text \<open>The number of batch rows whose derived short name is \<open>client\<close> and whose coupon
  value is \<open>v\<close>, in the words of the specification.\<close>

definition spec_pair_rows ::
  "(string \<Rightarrow> string) \<Rightarrow> frame \<Rightarrow> string \<Rightarrow> string \<Rightarrow> cell \<Rightarrow> nat" where
  "spec_pair_rows unicode_upper df value_col client v =
     length (filter (\<lambda>r. get_client_short_name unicode_upper (get_cell r ''client_name'') = Inr client \<and>
                get_cell r value_col = v) (rows df))"

text \<open>The batch of the specification's example (two rows ShopA at value 10, one at
  value 20), with a second client and a row without client name.\<close>

definition shopa_batch :: frame where
  "shopa_batch = \<lparr>columns = [''client_name'', ''CouponValue'', ''ShopName''],
     rows = [[(''client_name'', Str ''ShopA Ltd''), (''CouponValue'', Num 10)],
             [(''client_name'', Str ''ShopA Ltd''), (''CouponValue'', Num 10)],
             [(''client_name'', Str ''ShopA Ltd''), (''CouponValue'', Num 20)],
             [(''client_name'', Str ''Plk Centre''), (''CouponValue'', Num 20)],
             [(''client_name'', NaN), (''CouponValue'', Num 20)]]\<rparr>"

section \<open>The display alias\<close>

text \<open>\<open>s.replace(old, new)\<close>: every occurrence of \<open>old\<close>, from the left and without
  overlap.\<close>

function replace :: "string \<Rightarrow> string \<Rightarrow> string \<Rightarrow> string" where
  "replace old new [] = (if old = [] then new else [])"
| "replace old new (c # cs) =
     (if old = [] then new @ c # replace old new cs
      else if starts_with old (c # cs) then new @ replace old new (drop (length old) (c # cs))
      else c # replace old new cs)"
  by pat_completeness auto
termination
  by (relation "measure (\<lambda>(old, new, s). length s)") auto

text \<open>The display alias, U followed by two Chinese characters, in UTF-8.\<close>

definition alias_name :: string where
  "alias_name = [CHR ''U'', CHR 0xE5, CHR 0xA3, CHR 0xAB, CHR 0xE5, CHR 0xA4, CHR 0x9A]"

text \<open>\<open>str(x).replace("MARAE LIMITED", alias) if "MARAE LIMITED" in str(x) else x\<close>.\<close>

definition display_alias :: "cell \<Rightarrow> cell" where
  "display_alias x =
     (if contains ''MARAE LIMITED'' (py_str x)
      then Str (replace ''MARAE LIMITED'' alias_name (py_str x)) else x)"

section \<open>The pivot worksheet\<close>

text \<open>Python's \<open>sorted\<close> on non-missing cells: comparing a text with an integer raises
  \<open>TypeError\<close>.\<close>

definition is_str :: "cell \<Rightarrow> bool" where
  "is_str c = (case c of Str s \<Rightarrow> True | _ \<Rightarrow> False)"

definition is_num :: "cell \<Rightarrow> bool" where
  "is_num c = (case c of Num n \<Rightarrow> True | _ \<Rightarrow> False)"

definition py_sorted :: "cell list \<Rightarrow> py_error + cell list" where
  "py_sorted cs =
     (if (\<exists>c \<in> set cs. is_str c) \<and> (\<exists>c \<in> set cs. is_num c) then Inl TypeError
      else Inr (sort_key cell_key cs))"

text \<open>The key pairs of \<open>groupby([market_col, 'ShopName'])\<close>.\<close>

definition tenant_pairs :: "frame \<Rightarrow> string \<Rightarrow> (cell \<times> cell) list" where
  "tenant_pairs df market_col =
     filter (\<lambda>(m, s). \<not> isna m \<and> \<not> isna s)
       (map (\<lambda>r. (get_cell r market_col, get_cell r ''ShopName'')) (rows df))"

text \<open>\<open>groupby([market_col, 'ShopName']).size().reset_index()\<close>, with the alias put in
  the \<open>ShopName\<close> column: market, merchant and count, in key order.\<close>

definition tenant_data :: "frame \<Rightarrow> string \<Rightarrow> (cell \<times> cell \<times> nat) list" where
  "tenant_data df market_col =
     (let ps = tenant_pairs df market_col
      in map (\<lambda>(m, s). (m, display_alias s, count_list ps (m, s)))
           (sort_key (\<lambda>(m, s). (cell_key m, cell_key s)) (remdups ps)))"

record pivot_row =
  Market :: cell
  Tenant :: cell
  Count_of_coupon_uid :: nat

text \<open>The tenant rows of one market: \<open>tenant_data[tenant_data[market_col] ==
  market].sort_values('Count_of_coupon_uid', ascending=False)\<close>.\<close>

definition market_tenants :: "(cell \<times> cell \<times> nat) list \<Rightarrow> cell \<Rightarrow> (cell \<times> nat) list" where
  "market_tenants td market =
     sort_values_desc (map snd (filter (\<lambda>(m, s, n). m = market) td))"

text \<open>The loop over the sorted markets. \<open>.values[0]\<close> raises \<open>IndexError\<close> when no total
  is found for the market.\<close>

fun pivot_rows ::
  "(cell \<times> nat) list \<Rightarrow> (cell \<times> cell \<times> nat) list \<Rightarrow> cell list \<Rightarrow> py_error + pivot_row list" where
  "pivot_rows market_totals td [] = Inr []"
| "pivot_rows market_totals td (market # ms) =
     (case filter (\<lambda>(m, n). m = market) market_totals of
        [] \<Rightarrow> Inl IndexError
      | (m, market_total) # _ \<Rightarrow>
          (case pivot_rows market_totals td ms of
             Inl e \<Rightarrow> Inl e
           | Inr rest \<Rightarrow>
               Inr (\<lparr>Market = market, Tenant = Str [], Count_of_coupon_uid = market_total\<rparr> #
                    map (\<lambda>(s, n). \<lparr>Market = Str [], Tenant = s, Count_of_coupon_uid = n\<rparr>)
                      (market_tenants td market) @ rest)))"

definition generate_pivot_worksheet :: "frame \<Rightarrow> pivot_row list option" where
  "generate_pivot_worksheet daily_df =
     (case pivot_market_col (columns daily_df) of
        None \<Rightarrow> None
      | Some market_col \<Rightarrow>
          if ''ShopName'' \<notin> set (columns daily_df) then None
          else
            (let td = tenant_data daily_df market_col;
                 market_totals = groupby_size (col daily_df market_col)
             in case py_sorted (unique (map fst market_totals)) of
                  Inl e \<Rightarrow> None
                | Inr markets \<Rightarrow>
                    (case pivot_rows market_totals td markets of
                       Inl e \<Rightarrow> None
                     | Inr result_rows \<Rightarrow> Some result_rows)))"

section \<open>The market worksheets\<close>

record merchant_row =
  mr_market :: cell
  mr_tenant :: string
  mr_flag :: string

record sheet_row =
  data_of_coupon_used :: cell
  count_col :: cell
  spacer :: cell
  merchant_list :: cell
  tenant_col :: cell
  flag_col :: cell
  no_of_n :: cell

text \<open>\<open>daily_df[daily_df[market_col] == market]\<close>.\<close>

definition market_data :: "frame \<Rightarrow> string \<Rightarrow> cell \<Rightarrow> frame" where
  "market_data df market_col market =
     \<lparr>columns = columns df, rows = filter (\<lambda>r. get_cell r market_col = market) (rows df)\<rparr>"

definition left_data :: "frame \<Rightarrow> string \<Rightarrow> cell \<Rightarrow> (cell \<times> nat) list" where
  "left_data df market_col market =
     map (\<lambda>(tenant_name, n). (display_alias tenant_name, n))
       (sort_values_desc (value_counts (col (market_data df market_col market) ''ShopName'')))"

text \<open>\<open>display_tenant\<close> of the merchant list: \<open>str(tenant)\<close>, with the alias in the
  place of the literal name.\<close>

definition display_tenant :: "cell \<Rightarrow> string" where
  "display_tenant tenant =
     (if contains ''MARAE LIMITED'' (py_str tenant)
      then replace ''MARAE LIMITED'' alias_name (py_str tenant) else py_str tenant)"

text \<open>The merchant list of a market. Both tenant sets are read from the rows of the
  market.\<close>

definition merchant_rows :: "frame \<Rightarrow> string \<Rightarrow> cell \<Rightarrow> py_error + merchant_row list" where
  "merchant_rows df market_col market =
     (let all_tenants_in_market =
            unique (dropna (col \<lparr>columns = columns df,
               rows = filter (\<lambda>r. get_cell r market_col = market) (rows df)\<rparr> ''ShopName''));
          tenants_with_usage_in_market =
            unique (dropna (col (market_data df market_col market) ''ShopName''))
      in case py_sorted all_tenants_in_market of
           Inl e \<Rightarrow> Inl e
         | Inr tenants \<Rightarrow>
             Inr (map (\<lambda>tenant.
                    \<lparr>mr_market = market,
                     mr_tenant = display_tenant tenant,
                     mr_flag = (if tenant \<in> set tenants_with_usage_in_market then ''Y'' else ''N'')\<rparr>)
                  tenants))"

text \<open>Row \<open>i\<close> of the combined table.\<close>

definition combined_row :: "(cell \<times> nat) list \<Rightarrow> merchant_row list \<Rightarrow> nat \<Rightarrow> sheet_row" where
  "combined_row left right i =
     (let l = (if i = 0 then (Str ''Data of Coupon Used'', Str [])
               else if i = 1 then (Str ''Tenant'', Str ''Count'')
               else if i - 2 < length left then (fst (left ! (i - 2)), Num (int (snd (left ! (i - 2)))))
               else (Str [], Str []));
          r = (if i = 0 then (Str ''Merchant List (Accept Food Coupon)'', Str [], Str [], Str [])
               else if i = 1 then
                 (Str ''Market'', Str ''Tenant'', Str ''Have Coupon Used'',
                  Num (int (length (filter (\<lambda>m. mr_flag m = ''N'') right))))
               else if i - 2 < length right then
                 (mr_market (right ! (i - 2)), Str (mr_tenant (right ! (i - 2))),
                  Str (mr_flag (right ! (i - 2))), Str [])
               else (Str [], Str [], Str [], Str []))
      in \<lparr>data_of_coupon_used = fst l, count_col = snd l, spacer = Str [],
          merchant_list = fst r, tenant_col = fst (snd r), flag_col = fst (snd (snd r)),
          no_of_n = snd (snd (snd r))\<rparr>)"

definition combined_data :: "(cell \<times> nat) list \<Rightarrow> merchant_row list \<Rightarrow> sheet_row list" where
  "combined_data left right =
     (let max_rows = max (length left) (length right) + 2
      in map (combined_row left right) [0..<max_rows])"

text \<open>The first \<open>n\<close> code points of a UTF-8 string (\<open>s[:n]\<close>).\<close>

fun take_code_points :: "nat \<Rightarrow> string \<Rightarrow> string" where
  "take_code_points n [] = []"
| "take_code_points n (c # cs) =
     (if is_continuation c then c # take_code_points n cs
      else (case n of 0 \<Rightarrow> [] | Suc k \<Rightarrow> c # take_code_points k cs))"

definition sheet_name :: "cell \<Rightarrow> string" where
  "sheet_name market =
     map (\<lambda>c. if c \<in> set [CHR ''/'', CHR 0x5C, CHR ''*'', CHR ''['', CHR '']'', CHR '':'', CHR ''?''] then CHR ''_'' else c) (take_code_points 31 (py_str market))"

text \<open>The sheet of one market; \<open>market_data\<close> of a market of the ledger is never
  empty, an empty one is skipped.\<close>

definition market_sheet :: "frame \<Rightarrow> string \<Rightarrow> cell \<Rightarrow> py_error + sheet_row list option" where
  "market_sheet df market_col market =
     (if empty_frame (market_data df market_col market) then Inr None
      else case merchant_rows df market_col market of
             Inl e \<Rightarrow> Inl e
           | Inr right \<Rightarrow> Inr (Some (combined_data (left_data df market_col market) right)))"

text \<open>The loop over the markets. An exception ends the loop, and the sheets made so
  far are returned.\<close>

fun worksheets_loop ::
  "frame \<Rightarrow> string \<Rightarrow> (string \<times> sheet_row list) list \<Rightarrow> cell list \<Rightarrow>
     (string \<times> sheet_row list) list" where
  "worksheets_loop df market_col market_sheets [] = market_sheets"
| "worksheets_loop df market_col market_sheets (market # ms) =
     (case market_sheet df market_col market of
        Inl e \<Rightarrow> market_sheets
      | Inr None \<Rightarrow> worksheets_loop df market_col market_sheets ms
      | Inr (Some market_df) \<Rightarrow>
          worksheets_loop df market_col
            (AList.update (sheet_name market) market_df market_sheets) ms)"

definition generate_market_worksheets ::
  "frame \<Rightarrow> (string \<rightharpoonup> string) \<Rightarrow> (string \<times> sheet_row list) list" where
  "generate_market_worksheets daily_df sales_category_mapping =
     (case worksheets_market_col (columns daily_df) of
        None \<Rightarrow> []
      | Some market_col \<Rightarrow>
          if ''ShopName'' \<notin> set (columns daily_df) then []
          else worksheets_loop daily_df market_col []
                 (unique (dropna (col daily_df market_col))))"

text \<open>The worksheet of market A of the row-set \<open>two_markets\<close>.\<close>

definition sheet_A :: "sheet_row list" where
  "sheet_A =
     [\<lparr>data_of_coupon_used = Str ''Data of Coupon Used'', count_col = Str [], spacer = Str [],
        merchant_list = Str ''Merchant List (Accept Food Coupon)'', tenant_col = Str [],
        flag_col = Str [], no_of_n = Str []\<rparr>,
      \<lparr>data_of_coupon_used = Str ''Tenant'', count_col = Str ''Count'', spacer = Str [],
        merchant_list = Str ''Market'', tenant_col = Str ''Tenant'',
        flag_col = Str ''Have Coupon Used'', no_of_n = Num 0\<rparr>,
      \<lparr>data_of_coupon_used = Str ''S1'', count_col = Num 1, spacer = Str [],
        merchant_list = Str ''A'', tenant_col = Str ''S1'', flag_col = Str ''Y'',
        no_of_n = Str []\<rparr>]"

text \<open>Four merchant rows: the name between two ideographic spaces (U+3000), the name
  between a tab and a no-break space (U+00A0), the name in lower case, and no name.\<close>

definition shops_frame :: frame where
  "shops_frame = \<lparr>columns = [''ShopName''],
     rows = [[(''ShopName'', Str ([CHR 0xE3, CHR 0x80, CHR 0x80] @ ''ShopA'' @
                                  [CHR 0xE3, CHR 0x80, CHR 0x80]))],
             [(''ShopName'', Str ([CHR 0x09] @ ''ShopA'' @ [CHR 0xC2, CHR 0xA0]))],
             [(''ShopName'', Str ''shopa'')],
             [(''ShopName'', NaN)]]\<rparr>"

text \<open>A block of the pivot output, in the words of the specification: one row with the
  market, an empty merchant field and the market's total, then one row per merchant
  with an empty market field.\<close>

definition block_rows :: "cell \<times> nat \<times> (cell \<times> nat) list \<Rightarrow> pivot_row list" where
  "block_rows b =
     (case b of (m, tot, ts) \<Rightarrow>
        \<lparr>Market = m, Tenant = Str [], Count_of_coupon_uid = tot\<rparr> #
        map (\<lambda>(s, n). \<lparr>Market = Str [], Tenant = s, Count_of_coupon_uid = n\<rparr>) ts)"

text \<open>The number of ledger rows of a market and a merchant.\<close>

definition usage_rows :: "frame \<Rightarrow> string \<Rightarrow> cell \<Rightarrow> cell \<Rightarrow> nat" where
  "usage_rows df market_col market shop =
     length (filter (\<lambda>r. get_cell r market_col = market \<and> get_cell r ''ShopName'' = shop)
       (rows df))"

text \<open>The ascending order of markets: alphabetical for names, numeric for integer
  codes.\<close>

fun market_less :: "cell \<Rightarrow> cell \<Rightarrow> bool" where
  "market_less (Str s) (Str t) = (s < t)"
| "market_less (Num i) (Num j) = (i < j)"
| "market_less a b = False"

text \<open>The market names of a pivot output, as they read in the market column of the
  rows that hold one.\<close>

definition pivot_market_names :: "pivot_row list \<Rightarrow> string list" where
  "pivot_market_names out = map (\<lambda>r. py_str (Market r)) (filter (\<lambda>r. Market r \<noteq> Str []) out)"

text \<open>The ledger of the specification's pivot example, with a row of a second market
  among its rows.\<close>

definition pivot_ledger :: frame where
  "pivot_ledger = \<lparr>columns = [''Market'', ''ShopName''],
     rows = [[(''Market'', Str ''marketX''), (''ShopName'', Str ''merchantB'')],
             [(''Market'', Str ''marketX''), (''ShopName'', Str ''merchantA'')],
             [(''Market'', Str ''marketA''), (''ShopName'', Str ''merchantC'')],
             [(''Market'', Str ''marketX''), (''ShopName'', Str ''merchantA'')]]\<rparr>"

text \<open>A ledger whose markets are the integer codes 10 and 9.\<close>

definition code_ledger :: frame where
  "code_ledger = \<lparr>columns = [''MarketCode'', ''ShopName''],
     rows = [[(''MarketCode'', Num 10), (''ShopName'', Str ''merchantA'')],
             [(''MarketCode'', Num 9), (''ShopName'', Str ''merchantB'')]]\<rparr>"

text \<open>A ledger whose market column holds an integer code and a text code.\<close>

definition mixed_ledger :: frame where
  "mixed_ledger = \<lparr>columns = [''MarketCode'', ''ShopName''],
     rows = [[(''MarketCode'', Num 10), (''ShopName'', Str ''merchantA'')],
             [(''MarketCode'', Str ''K9''), (''ShopName'', Str ''merchantB'')]]\<rparr>"

text \<open>A string is blank when it is a sequence of whitespace code points.\<close>

definition blank :: "string \<Rightarrow> bool" where
  "blank s \<longleftrightarrow> (\<exists>ws. set ws \<subseteq> set whitespace \<and> s = concat ws)"

text \<open>\<open>k\<close> is \<open>s\<close> trimmed: \<open>s\<close> without a blank part at its front and a blank part at
  its end, and \<open>k\<close> neither starts nor ends with a whitespace code point.\<close>

definition trimmed :: "string \<Rightarrow> string \<Rightarrow> bool" where
  "trimmed s k \<longleftrightarrow>
     (\<exists>pre post. s = pre @ k @ post \<and> blank pre \<and> blank post \<and>
        (\<forall>w \<in> set whitespace. \<not> starts_with w k \<and> \<not> starts_with (rev w) (rev k)))"

section \<open>Properties\<close>

text \<open>
  Claim C3. The short-name derivation is meant to return a result for every string or
  missing input, whitespace-only strings included. On the string of three spaces no
  abbreviation matches, the string is truthy, its \<open>split()\<close> is the empty list, and
  indexing it at 0 raises \<open>IndexError\<close>.
\<close>

theorem get_client_short_name_whitespace_raises:
  "get_client_short_name unicode_upper (Str ''   '') = Inl IndexError"
  by code_simp

lemma get_cell_set_cell: "get_cell (set_cell r c v) c = v"
  by (simp add: get_cell_def set_cell_def update_conv')

lemma starts_with_iff: "starts_with w s \<longleftrightarrow> (\<exists>r. s = w @ r)"
  by (induction w s rule: starts_with.induct) auto

lemma whitespace_nonempty: "w \<in> set whitespace \<Longrightarrow> w \<noteq> []"
  by (auto simp: whitespace_def)

lemma ws_len_whitespace:
  "w \<in> set whitespace \<Longrightarrow> ws_len (w @ x) = length w"
  unfolding ws_len_def whitespace_def
  by (simp only: list.set insert_iff empty_iff, elim disjE) simp_all



lemma ws_len_0: "ws_len s = 0 \<longleftrightarrow> (\<forall>w \<in> set whitespace. \<not> starts_with w s)"
proof
  assume z: "ws_len s = 0"
  show "\<forall>w \<in> set whitespace. \<not> starts_with w s"
  proof (intro ballI notI)
    fix w assume w: "w \<in> set whitespace" and "starts_with w s"
    then obtain r where "s = w @ r" by (auto simp: starts_with_iff)
    with ws_len_whitespace [OF w, of r] z whitespace_nonempty [OF w] show False by simp
  qed
next
  assume "\<forall>w \<in> set whitespace. \<not> starts_with w s"
  then have "filter (\<lambda>w. starts_with w s) whitespace = []"
    by (simp add: filter_empty_conv)
  then show "ws_len s = 0" by (simp add: ws_len_def)
qed

lemma ws_len_pos:
  assumes "0 < ws_len s"
  shows "\<exists>w r. w \<in> set whitespace \<and> s = w @ r \<and> ws_len s = length w"
proof -
  from assms have "\<not> (\<forall>w \<in> set whitespace. \<not> starts_with w s)"
    using ws_len_0 [of s] by simp
  then obtain w where w: "w \<in> set whitespace" "starts_with w s" by blast
  then obtain r where r: "s = w @ r" by (auto simp: starts_with_iff)
  from ws_len_whitespace [OF w(1), of r] r have "ws_len s = length w" by simp
  with w r show ?thesis by blast
qed

lemma lstrip_from_drop: "lstrip_from k s = lstrip_from 0 (drop k s)"
proof (induction s arbitrary: k)
  case Nil
  then show ?case by simp
next
  case (Cons c cs)
  show ?case
  proof (cases k)
    case 0
    then show ?thesis by simp
  next
    case (Suc j)
    with Cons.IH [of j] show ?thesis by simp
  qed
qed

lemma lstrip_step:
  "lstrip s = (if 0 < ws_len s then lstrip (drop (ws_len s) s) else s)"
proof (cases s)
  case Nil
  then show ?thesis by (simp add: lstrip_def)
next
  case (Cons c cs)
  show ?thesis
  proof (cases "0 < ws_len s")
    case False
    with Cons show ?thesis by (simp add: lstrip_def)
  next
    case True
    then obtain j where j: "ws_len s = Suc j" by (cases "ws_len s") auto
    with Cons True have "lstrip s = lstrip_from j cs" by (simp add: lstrip_def)
    also have "\<dots> = lstrip_from 0 (drop j cs)" by (rule lstrip_from_drop)
    finally show ?thesis using Cons True j by (simp add: lstrip_def)
  qed
qed

lemma lstrip_whitespace: "w \<in> set whitespace \<Longrightarrow> lstrip (w @ x) = lstrip x"
  using lstrip_step [of "w @ x"] ws_len_whitespace [of w x] whitespace_nonempty [of w]
  by simp

lemma lstrip_blank: "blank s \<Longrightarrow> lstrip (s @ x) = lstrip x"
proof -
  have "set ws \<subseteq> set whitespace \<Longrightarrow> lstrip (concat ws @ x) = lstrip x" for ws
    by (induction ws) (auto simp: lstrip_whitespace)
  then show "blank s \<Longrightarrow> lstrip (s @ x) = lstrip x"
    by (auto simp: blank_def)
qed

lemma lstrip_decomp: "\<exists>pre. blank pre \<and> s = pre @ lstrip s \<and> ws_len (lstrip s) = 0"
proof (induction s rule: length_induct)
  case (1 s)
  show ?case
  proof (cases "0 < ws_len s")
    case False
    then have "lstrip s = s" using lstrip_step [of s] by simp
    moreover have "blank []" by (auto simp: blank_def intro: exI [of _ "[]"])
    ultimately show ?thesis using False by auto
  next
    case True
    from ws_len_pos [OF True] obtain w r where w: "w \<in> set whitespace" "s = w @ r"
      "ws_len s = length w" by blast
    from w whitespace_nonempty [OF w(1)] have "length r < length s" by simp
    with 1 obtain pre where pre: "blank pre" "r = pre @ lstrip r" "ws_len (lstrip r) = 0"
      by blast
    from w have ls: "lstrip s = lstrip r" by (simp add: lstrip_whitespace)
    from pre(1) obtain ws where ws: "set ws \<subseteq> set whitespace" "pre = concat ws"
      by (auto simp: blank_def)
    with w(1) have "blank (w @ pre)"
      unfolding blank_def by (intro exI [of _ "w # ws"]) simp
    moreover from w(2) pre(2) ls have "s = (w @ pre) @ lstrip s" by simp
    ultimately show ?thesis using pre(3) ls by metis
  qed
qed

lemma lstrip_Nil_blank: "lstrip s = [] \<Longrightarrow> blank s"
  using lstrip_decomp [of s] by auto

lemma rstrip_decomp:
  "\<exists>post. blank post \<and> t = rstrip t @ post \<and>
     (\<forall>w \<in> set whitespace. \<not> starts_with (rev w) (rev (rstrip t)))"
proof (induction t)
  case Nil
  have "blank []" by (auto simp: blank_def intro: exI [of _ "[]"])
  moreover have "\<not> starts_with (rev w) []" if "w \<in> set whitespace" for w
    using whitespace_nonempty [OF that] by (cases "rev w") auto
  ultimately show ?case by auto
next
  case (Cons c cs)
  show ?case
  proof (cases "lstrip (c # cs) = []")
    case True
    then have "blank (c # cs)" by (rule lstrip_Nil_blank)
    moreover have "\<not> starts_with (rev w) []" if "w \<in> set whitespace" for w
      using whitespace_nonempty [OF that] by (cases "rev w") auto
    ultimately show ?thesis using True by auto
  next
    case False
    from Cons obtain post where post: "blank post" "cs = rstrip cs @ post"
      and e: "\<forall>w \<in> set whitespace. \<not> starts_with (rev w) (rev (rstrip cs))" by blast
    have "\<not> starts_with (rev w) (rev (c # rstrip cs))" if w: "w \<in> set whitespace" for w
    proof
      assume "starts_with (rev w) (rev (c # rstrip cs))"
      then obtain r where "rev (c # rstrip cs) = rev w @ r" by (auto simp: starts_with_iff)
      then have eq: "c # rstrip cs = rev r @ w"
        by (metis rev_append rev_rev_ident)
      show False
      proof (cases "rev r")
        case Nil
        with eq have "w = c # rstrip cs" by simp
        then have "w @ post = c # (rstrip cs @ post)" by simp
        with post(2) have "c # cs = w @ post" by simp
        then have "lstrip (c # cs) = lstrip post" by (simp add: lstrip_whitespace [OF w])
        also have "\<dots> = []" using lstrip_blank [OF post(1), of "[]"] by (simp add: lstrip_def)
        finally show False using False by simp
      next
        case (Cons a p)
        with eq have "rstrip cs = p @ w" by simp
        then have "starts_with (rev w) (rev (rstrip cs))" by (simp add: starts_with_iff)
        with e w show False by blast
      qed
    qed
    with post False show ?thesis by auto
  qed
qed

lemma strip_trimmed: "trimmed s (strip s)"
proof -
  from lstrip_decomp [of s] obtain pre where pre: "blank pre" "s = pre @ lstrip s"
    "ws_len (lstrip s) = 0" by blast
  from rstrip_decomp [of "lstrip s"] obtain post where post: "blank post"
    "lstrip s = rstrip (lstrip s) @ post"
    and e: "\<forall>w \<in> set whitespace. \<not> starts_with (rev w) (rev (rstrip (lstrip s)))" by blast
  have b: "\<not> starts_with w (strip s)" if w: "w \<in> set whitespace" for w
  proof
    assume "starts_with w (strip s)"
    then obtain r where "strip s = w @ r" by (auto simp: starts_with_iff)
    with post(2) have "starts_with w (lstrip s)"
      by (auto simp: strip_def starts_with_iff)
    with pre(3) w show False by (simp add: ws_len_0)
  qed
  from pre(2) post(2) have "s = pre @ strip s @ post" by (simp add: strip_def)
  with pre(1) post(1) b e show ?thesis
    unfolding trimmed_def strip_def by blast
qed

text \<open>
  Claim C8. Category enrichment fails exactly when the row-set has no \<open>ShopName\<close>
  column. When the column is there, the result has one row per input row; the key of a
  row is its merchant identifier as text (the empty string when it is missing),
  trimmed and with its case kept; a row whose key is a key of the mapping carries the
  mapped category, and a row whose key is not in the mapping carries the empty string.
\<close>

theorem add_sales_category_spec:
  "(isl (add_sales_category df m) \<longleftrightarrow> ''ShopName'' \<notin> set (columns df)) \<and>
   (''ShopName'' \<in> set (columns df) \<longrightarrow>
      (\<exists>df'. add_sales_category df m = Inr df' \<and>
         ''Sales Category'' \<in> set (columns df') \<and>
         length (rows df') = length (rows df) \<and>
         (\<forall>i < length (rows df).
            trimmed (py_str (fillna (Str []) (get_cell (rows df ! i) ''ShopName'')))
              (strip (py_str (fillna (Str []) (get_cell (rows df ! i) ''ShopName'')))) \<and>
            (\<forall>c. m (strip (py_str (fillna (Str []) (get_cell (rows df ! i) ''ShopName'')))) = Some c
               \<longrightarrow> get_cell (rows df' ! i) ''Sales Category'' = Str c) \<and>
            (m (strip (py_str (fillna (Str []) (get_cell (rows df ! i) ''ShopName'')))) = None
               \<longrightarrow> get_cell (rows df' ! i) ''Sales Category'' = Str []))))"
  by (auto simp: add_sales_category_def get_cell_set_cell merchant_key_def strip_trimmed)

theorem add_sales_category_spec_witness:
  "''ShopName'' \<in> set (columns shops_frame) \<and>
   (\<exists>df'. add_sales_category shops_frame [''ShopA'' \<mapsto> ''Food''] = Inr df' \<and>
     get_cell (rows df' ! 0) ''Sales Category'' = Str ''Food'' \<and>
     get_cell (rows df' ! 1) ''Sales Category'' = Str ''Food'' \<and>
     get_cell (rows df' ! 2) ''Sales Category'' = Str [] \<and>
     get_cell (rows df' ! 3) ''Sales Category'' = Str [])"
proof -
  let ?m = "[''ShopA'' \<mapsto> ''Food'']"
  let ?raw = "\<lambda>i. py_str (fillna (Str []) (get_cell (rows shops_frame ! i) ''ShopName''))"
  let ?key = "\<lambda>i. strip (?raw i)"
  have c: "''ShopName'' \<in> set (columns shops_frame)" by code_simp
  have n: "length (rows shops_frame) = 4" by code_simp
  have k0: "?key 0 = ''ShopA''" by code_simp
  have k1: "?key 1 = ''ShopA''" by code_simp
  have k2: "?key 2 = ''shopa''" by code_simp
  have k3: "?key 3 = []" by code_simp
  from add_sales_category_spec [of shops_frame ?m] c
  obtain df' where d: "add_sales_category shops_frame ?m = Inr df'"
    and a: "\<forall>i < length (rows shops_frame).
            trimmed (?raw i) (?key i) \<and>
            (\<forall>c. ?m (?key i) = Some c \<longrightarrow> get_cell (rows df' ! i) ''Sales Category'' = Str c) \<and>
            (?m (?key i) = None \<longrightarrow> get_cell (rows df' ! i) ''Sales Category'' = Str [])"
    by blast
  have i: "(0::nat) < 4" "(1::nat) < 4" "(2::nat) < 4" "(3::nat) < 4" by simp_all
  from a [rule_format, of 0] i(1) have "get_cell (rows df' ! 0) ''Sales Category'' = Str ''Food''"
    by (simp only: n k0) simp
  moreover from a [rule_format, of 1] i(2)
  have "get_cell (rows df' ! 1) ''Sales Category'' = Str ''Food''"
    by (simp only: n k1) simp
  moreover from a [rule_format, of 2] i(3)
  have "get_cell (rows df' ! 2) ''Sales Category'' = Str []"
    by (simp only: n k2) simp
  moreover from a [rule_format, of 3] i(4)
  have "get_cell (rows df' ! 3) ''Sales Category'' = Str []"
    by (simp only: n k3) simp
  ultimately show ?thesis using c d by blast
qed

text \<open>
  Claim C1, as the code has it. The pivot builder and the market worksheet builder
  resolve the market column alike, by the priority localized name, explicit market
  name, market code. Their choice is the aggregator's for every row-set that does not
  carry both a \<open>Market\<close> and a \<open>NameChinese\<close> column.
\<close>

theorem pivot_market_col_priority:
  "worksheets_market_col cols = pivot_market_col cols \<and>
   pivot_market_col cols =
     (if ''NameChinese'' \<in> set cols then Some ''NameChinese''
      else if ''Market'' \<in> set cols then Some ''Market''
      else if ''MarketCode'' \<in> set cols then Some ''MarketCode'' else None) \<and>
   (\<not> (''Market'' \<in> set cols \<and> ''NameChinese'' \<in> set cols) \<longrightarrow>
      pivot_market_col cols = used_market_col cols)"
  by (simp add: worksheets_market_col_def pivot_market_col_def used_market_col_def)

theorem pivot_market_col_priority_witness:
  "\<not> (''Market'' \<in> set [''MarketCode'', ''Market'', ''ShopName''] \<and>
      ''NameChinese'' \<in> set [''MarketCode'', ''Market'', ''ShopName'']) \<and>
   pivot_market_col [''MarketCode'', ''Market'', ''ShopName''] = Some ''Market'' \<and>
   pivot_market_col [''MarketCode'', ''Market'', ''ShopName''] =
     used_market_col [''MarketCode'', ''Market'', ''ShopName'']"
  using pivot_market_col_priority [of "[''MarketCode'', ''Market'', ''ShopName'']"]
  by (simp add: used_market_col_def)

text \<open>
  Claim C1, as the specification states it, fails on a ledger that has both columns:
  the aggregator takes \<open>Market\<close>, the pivot builder \<open>NameChinese\<close>.
\<close>

theorem pivot_market_col_differs:
  "pivot_market_col [''Market'', ''NameChinese'', ''ShopName''] \<noteq>
   used_market_col [''Market'', ''NameChinese'', ''ShopName'']"
  by (simp add: pivot_market_col_def used_market_col_def)

lemma length_rows_concat_frames:
  "length (rows (concat_frames dfs)) = sum_list (map (\<lambda>df. length (rows df)) dfs)"
  by (simp add: concat_frames_def length_concat comp_def)

text \<open>
  Claim C10. In every successful reply of \<open>process_reports\<close>, \<open>total_records\<close> is
  \<open>previous_records\<close> plus \<open>new_records\<close>.
\<close>

theorem process_reports_total:
  "process_reports daily files m = Reply200 r \<Longrightarrow>
     total_records r = previous_records r + new_records r"
  by (auto simp: process_reports_def Let_def length_rows_concat_frames split: if_splits)

theorem process_reports_total_witness:
  "process_reports
     \<lparr>columns = [''ShopName''], rows = [[(''ShopName'', Str ''ShopA'')]]\<rparr>
     [(''week1.csv'', Inr \<lparr>columns = [''ShopName''],
          rows = [[(''ShopName'', Str ''ShopA'')], [(''ShopName'', Str ''ShopB'')]]\<rparr>),
      (''notes.txt'', Inl ValueError)]
     Map.empty
   = Reply200 \<lparr>total_records = 3, previous_records = 1, new_records = 2,
       market_files_processed = 1\<rparr> \<and>
   total_records \<lparr>total_records = 3, previous_records = 1, new_records = 2,
       market_files_processed = 1\<rparr> = 1 + 2"
proof -
  let ?daily = "\<lparr>columns = [''ShopName''], rows = [[(''ShopName'', Str ''ShopA'')]]\<rparr>"
  let ?files = "[(''week1.csv'', Inr \<lparr>columns = [''ShopName''],
          rows = [[(''ShopName'', Str ''ShopA'')], [(''ShopName'', Str ''ShopB'')]]\<rparr>),
      (''notes.txt'', Inl ValueError)]"
  let ?r = "\<lparr>total_records = 3, previous_records = 1, new_records = 2,
       market_files_processed = 1\<rparr>"
  have e: "process_reports ?daily ?files Map.empty = Reply200 ?r"
    by (simp add: process_reports_def Let_def allowed_file_def extension_def lower_def
        lower_char_def add_sales_category_def concat_frames_def)
  from process_reports_total [OF e] show ?thesis using e by simp
qed

lemma sorted_sort_values_desc:
  "sorted_wrt (\<lambda>a b. b \<le> a) (map snd (sort_values_desc xs))"
proof -
  have "sorted (map (\<lambda>p. - int (snd p)) (sort_values_desc xs))"
    unfolding sort_values_desc_def by (rule sorted_sort_key)
  then show ?thesis
    by (simp add: sorted_wrt_map)
qed

lemma length_sort_values_desc: "length (sort_values_desc xs) = length xs"
  by (simp add: sort_values_desc_def)

lemma tables_of_nonempty:
  "t \<in> set (tables_of (nonempty_results r)) \<Longrightarrow> weekly r = Some t \<or> all_records r = Some t"
  by (auto simp: tables_of_def nonempty_results_def split: option.splits if_splits)

text \<open>
  Claim C6, as the code has it. Every Used-Market and Top-Merchant table is sorted by
  count in non-increasing order (equal counts may follow one another), and a
  Top-Merchant table has at most 15 rows.
\<close>

theorem aggregates_sorted:
  "(\<forall>t \<in> set (tables_of (generate_used_market_table w d)) \<union>
           set (tables_of (generate_top_merchant_table w d)).
      sorted_wrt (\<lambda>a b. b \<le> a) (map snd (data t))) \<and>
   (\<forall>t \<in> set (tables_of (generate_top_merchant_table w d)). length (data t) \<le> 15)"
proof -
  have u: "sorted_wrt (\<lambda>a b. b \<le> a) (map snd (data t))"
    if "used_market_part s df = Some t" for s df t
    using that
    by (auto simp: used_market_part_def sorted_sort_values_desc split: option.splits if_splits)
  have m: "sorted_wrt (\<lambda>a b. b \<le> a) (map snd (data t)) \<and> length (data t) \<le> 15"
    if "top_merchant_part s df = Some t" for s df t
    using that
    by (auto simp: top_merchant_part_def sorted_sort_values_desc length_sort_values_desc
        split: if_splits)
  show ?thesis
    unfolding generate_used_market_table_def generate_top_merchant_table_def
    by (auto dest!: tables_of_nonempty dest: u m)
qed

lemma used_two: "tables_of (generate_used_market_table two_markets two_markets) =
   [\<lparr>title = ''Used Market (Weekly)'', data = [(Str ''A'', 1), (Str ''B'', 1)],
      tcolumns = [''Market'', ''No. of Coupon Used'']\<rparr>,
    \<lparr>title = ''Used Market (All Records)'', data = [(Str ''A'', 1), (Str ''B'', 1)],
      tcolumns = [''Market'', ''No. of Coupon Used'']\<rparr>]"
  by (simp add: tables_of_def generate_used_market_table_def nonempty_results_def
      used_market_part_def used_market_col_def two_markets_def empty_frame_def col_def get_cell_def
      value_counts_def sort_values_desc_def unique_def dropna_def isna_def)

lemma top_two: "tables_of (generate_top_merchant_table two_markets two_markets) =
   [\<lparr>title = ''Top Merchant (Weekly)'', data = [(Str ''S1'', 1), (Str ''S2'', 1)],
      tcolumns = [''Merchant'', ''No. of Coupon Used'']\<rparr>,
    \<lparr>title = ''Top Merchant (All Records)'', data = [(Str ''S1'', 1), (Str ''S2'', 1)],
      tcolumns = [''Merchant'', ''No. of Coupon Used'']\<rparr>]"
  by (simp add: tables_of_def generate_top_merchant_table_def nonempty_results_def
      top_merchant_part_def two_markets_def empty_frame_def col_def get_cell_def
      value_counts_def sort_values_desc_def unique_def dropna_def isna_def)

text \<open>
  Claim C6, as the specification states it, asks for strictly descending counts. Two
  markets with one row each give the counts 1, 1.
\<close>

theorem used_market_ties_not_strict:
  "\<not> (\<forall>t \<in> set (tables_of (generate_used_market_table two_markets two_markets)).
        sorted_wrt (\<lambda>a b. b < a) (map snd (data t)))"
  by (simp add: used_two)

theorem aggregates_sorted_witness:
  "\<exists>t. t \<in> set (tables_of (generate_top_merchant_table two_markets two_markets)) \<and>
       sorted_wrt (\<lambda>a b. b \<le> a) (map snd (data t)) \<and> length (data t) \<le> 15"
proof -
  let ?t = "\<lparr>title = ''Top Merchant (Weekly)'', data = [(Str ''S1'', 1), (Str ''S2'', 1)],
      tcolumns = [''Merchant'', ''No. of Coupon Used'']\<rparr>"
  have m: "?t \<in> set (tables_of (generate_top_merchant_table two_markets two_markets))"
    by (simp add: top_two)
  with aggregates_sorted [of two_markets two_markets]
  have "sorted_wrt (\<lambda>a b. b \<le> a) (map snd (data ?t)) \<and> length (data ?t) \<le> 15"
    by blast
  with m show ?thesis by blast
qed

lemma short_names_Inr:
  "short_names u cs = Inr ss \<Longrightarrow> list_all2 (\<lambda>c s. get_client_short_name u c = Inr s) cs ss"
  by (induction cs arbitrary: ss) (auto split: sum.splits)

lemma set_sorted_keys: "set (sorted_keys cs) = {c \<in> set cs. c \<noteq> NaN}"
  by (auto simp: sorted_keys_def dropna_def isna_def)

lemma distinct_sorted_keys: "distinct (sorted_keys cs)"
  by (simp add: sorted_keys_def)

text \<open>In every Distributed-Coupon table \<open>Unused\<close> is 0 and \<open>Total\<close> is \<open>Used\<close>.\<close>

lemma distributed_coupon_unused_total:
  assumes "generate_distributed_coupon_table u df = Some t" and "row \<in> set (ddata t)"
  shows "Unused row = 0 \<and> Total row = Used row"
  using assms
  by (auto simp: generate_distributed_coupon_table_def Let_def split: if_splits sum.splits)

text \<open>
  Claim C5. \<open>Used\<close> is meant to be the total number of batch rows of the client of the
  row. On a batch in which two client names share the short name SJS, two batch rows
  have the short name SJS; the code groups by the full client name and only relabels
  the groups, so the table has two rows labelled SJS, each with \<open>Used\<close> 1.
\<close>

theorem distributed_coupon_splits_short_name:
  "generate_distributed_coupon_table unicode_upper sjs_batch =
   Some \<lparr>dtitle = ''No. of Distributed Coupon'',
     ddata =
       [\<lparr>Client = ''SJS'', Used = 1, Unused = 0, Total = 1\<rparr>,
        \<lparr>Client = ''ShopA'', Used = 2, Unused = 0, Total = 2\<rparr>,
        \<lparr>Client = ''SJS'', Used = 1, Unused = 0, Total = 1\<rparr>],
     dcolumns = [''Client'', ''Used'', ''Unused'', ''Total'']\<rparr> \<and>
   short_name_rows unicode_upper sjs_batch ''SJS'' = 2"
  by code_simp

lemma set_key_pairs:
  "set (key_pairs df vc) =
     {(get_cell r ''client_name'', get_cell r vc) | r. r \<in> set (rows df) \<and> present vc r}"
  by (auto simp: key_pairs_def present_def)

lemma count_key_pairs:
  "count_list (key_pairs df vc) (i, v) =
     length (filter (\<lambda>r. present vc r \<and> get_cell r ''client_name'' = i \<and> get_cell r vc = v)
       (rows df))"
proof -
  have "count_list (key_pairs df vc) (i, v) =
        length (filter (\<lambda>r. (i, v) = (get_cell r ''client_name'', get_cell r vc))
          (filter (\<lambda>r. present vc r) (rows df)))"
    by (simp add: count_list_eq_length_filter key_pairs_def filter_map comp_def present_def
        case_prod_unfold)
  also have "\<dots> = length (filter (\<lambda>r. present vc r \<and> get_cell r ''client_name'' = i \<and>
      get_cell r vc = v) (rows df))"
    by (simp add: conj_commute eq_commute cong: conj_cong)
  finally show ?thesis .
qed

lemma short_names_total:
  "(\<forall>c \<in> set cs. \<not> isl (get_client_short_name u c)) \<Longrightarrow>
     short_names u cs = Inr (map (\<lambda>c. projr (get_client_short_name u c)) cs)"
  by (induction cs) (auto split: sum.splits)

lemma map_of_map_inj:
  "inj_on f (set xs) \<Longrightarrow> i \<in> set xs \<Longrightarrow> map_of (map (\<lambda>i. (f i, g i)) xs) (f i) = Some (g i)"
  by (induction xs) (auto simp: inj_on_def)

lemma map_of_map_notin:
  "k \<notin> f ` set xs \<Longrightarrow> map_of (map (\<lambda>i. (f i, g i)) xs) k = None"
  by (induction xs) auto

lemma map_of_row:
  "map_of (map (\<lambda>c. (c, h c)) cols) v = (if v \<in> set cols then Some (h v) else None)"
  by (induction cols) auto


lemma zip_map_same: "zip (map f xs) (map g xs) = map (\<lambda>x. (f x, g x)) xs"
  by (induction xs) auto

text \<open>
  Claim C2, as the code has it. Take a non-empty batch with a client-name and a
  coupon-value column in which some row has both a client name and a coupon value,
  every grouped client name has a short name, different grouped client names have
  different short names, and the coupon values are not both of the texts \<open>index\<close> and
  \<open>level_0\<close> (the labels that \<open>reset_index\<close> gives the client column). Then the Coupon-Purchased table is produced; it has the cell
  (client, value) exactly when some row with both keys has short name \<open>client\<close> and some
  row with both keys has coupon value \<open>value\<close>, and the cell is the number of rows with
  both keys whose short name is \<open>client\<close> and whose coupon value is \<open>value\<close>. Rows in
  which the client name or the coupon value is missing are not counted.
\<close>

theorem coupon_purchased_cells:
  assumes ne: "\<not> empty_frame df"
    and cn: "''client_name'' \<in> set (columns df)"
    and vc: "vc = coupon_value_col (columns df)" "vc \<in> set (columns df)"
    and labels: "\<not> ((\<exists>r \<in> set (rows df). present vc r \<and> get_cell r vc = Str ''index'') \<and>
                  (\<exists>r \<in> set (rows df). present vc r \<and> get_cell r vc = Str ''level_0''))"
    and some: "\<exists>r \<in> set (rows df). present vc r"
    and ok: "\<forall>r \<in> set (rows df). present vc r \<longrightarrow>
               \<not> isl (get_client_short_name u (get_cell r ''client_name''))"
    and inj: "\<forall>r1 \<in> set (rows df). \<forall>r2 \<in> set (rows df).
               present vc r1 \<and> present vc r2 \<and>
               get_client_short_name u (get_cell r1 ''client_name'') =
               get_client_short_name u (get_cell r2 ''client_name'') \<longrightarrow>
               get_cell r1 ''client_name'' = get_cell r2 ''client_name''"
  shows "\<exists>t. generate_coupon_purchased_table u df = Some t \<and>
           (\<forall>client v. table_cell t client v =
              (if (\<exists>r \<in> set (rows df). present vc r \<and>
                     get_client_short_name u (get_cell r ''client_name'') = Inr client) \<and>
                  (\<exists>r \<in> set (rows df). present vc r \<and> get_cell r vc = v)
               then Some (pair_rows u df vc client v) else None))"
proof -
  let ?ps = "key_pairs df vc"
  let ?idx = "sorted_keys (map fst ?ps)"
  let ?cols = "sorted_keys (map snd ?ps)"
  let ?f = "\<lambda>c. projr (get_client_short_name u c)"
  let ?rowf = "\<lambda>i. map (\<lambda>c. (c, count_list ?ps (i, c))) ?cols"
  let ?rc = "if Str ''index'' \<notin> set ?cols then Str ''index'' # ?cols
             else Str ''level_0'' # ?cols"
  let ?t = "\<lparr>ctitle = ''No. of Coupon Purchased'',
             cdata = map (\<lambda>i. (?f i, ?rowf i)) ?idx,
             ccolumns = rename_index ?rc\<rparr>"
  have idx: "set ?idx = {get_cell r ''client_name'' | r. r \<in> set (rows df) \<and> present vc r}"
    by (force simp: set_sorted_keys set_key_pairs present_def isna_def)
  have cols: "set ?cols = {get_cell r vc | r. r \<in> set (rows df) \<and> present vc r}"
    by (force simp: set_sorted_keys set_key_pairs present_def isna_def)
  have rc: "reset_index_columns ?cols = Inr ?rc"
    using labels unfolding cols reset_index_columns_def by auto
  have okidx: "\<forall>c \<in> set ?idx. \<not> isl (get_client_short_name u c)"
    using ok unfolding idx by auto
  then have short: "get_client_short_name u c = Inr (?f c)" if "c \<in> set ?idx" for c
    using that by (cases "get_client_short_name u c") auto
  have injf: "inj_on ?f (set ?idx)"
  proof (rule inj_onI)
    fix a b assume a: "a \<in> set ?idx" and b: "b \<in> set ?idx" and e: "?f a = ?f b"
    from short [OF a] short [OF b] e
    have "get_client_short_name u a = get_client_short_name u b" by simp
    with a b inj show "a = b" unfolding idx by blast
  qed
  have dist: "distinct (map ?f ?idx)"
    by (simp add: distinct_map distinct_sorted_keys injf)
  have uc: "unstack_counts ?ps = map (\<lambda>i. (i, ?rowf i)) ?idx"
    by (simp add: unstack_counts_def)
  have sn: "short_names u (map fst (unstack_counts ?ps)) = Inr (map ?f ?idx)"
    using short_names_total [OF okidx] by (simp add: uc comp_def)
  have gen: "generate_coupon_purchased_table u df = Some ?t"
    using ne cn vc(2) dist
    by (simp add: generate_coupon_purchased_table_def Let_def vc(1) [symmetric] sn
        to_dict_index_def rc)
       (simp add: uc comp_def zip_map_same)
  have cell: "table_cell ?t client v =
              (if (\<exists>r \<in> set (rows df). present vc r \<and>
                     get_client_short_name u (get_cell r ''client_name'') = Inr client) \<and>
                  (\<exists>r \<in> set (rows df). present vc r \<and> get_cell r vc = v)
               then Some (pair_rows u df vc client v) else None)" for client v
  proof (cases "client \<in> ?f ` set ?idx")
    case False
    then have n: "map_of (cdata ?t) client = None"
      by (simp add: map_of_map_notin)
    have "\<not> (\<exists>r \<in> set (rows df). present vc r \<and>
               get_client_short_name u (get_cell r ''client_name'') = Inr client)"
    proof
      assume "\<exists>r \<in> set (rows df). present vc r \<and>
               get_client_short_name u (get_cell r ''client_name'') = Inr client"
      then obtain r where r: "r \<in> set (rows df)" "present vc r"
        "get_client_short_name u (get_cell r ''client_name'') = Inr client" by blast
      then have "get_cell r ''client_name'' \<in> set ?idx" unfolding idx by blast
      moreover from r have "?f (get_cell r ''client_name'') = client" by simp
      ultimately show False using False by blast
    qed
    with n show ?thesis by (simp add: table_cell_def)
  next
    case True
    then obtain i where i: "i \<in> set ?idx" and ci: "client = ?f i" by blast
    from i obtain r0 where r0: "r0 \<in> set (rows df)" "present vc r0"
      "get_cell r0 ''client_name'' = i" unfolding idx by blast
    have m: "map_of (cdata ?t) client = Some (?rowf i)"
      using map_of_map_inj [OF injf i, of ?rowf] by (simp add: ci)
    have ex1: "\<exists>r \<in> set (rows df). present vc r \<and>
                 get_client_short_name u (get_cell r ''client_name'') = Inr client"
      using r0 short [OF i] ci by auto
    have vcols: "v \<in> set ?cols \<longleftrightarrow> (\<exists>r \<in> set (rows df). present vc r \<and> get_cell r vc = v)"
      unfolding cols by auto
    have same: "present vc r \<and> get_cell r ''client_name'' = i \<and> get_cell r vc = v \<longleftrightarrow>
                present vc r \<and> get_client_short_name u (get_cell r ''client_name'') = Inr client \<and>
                get_cell r vc = v" if r: "r \<in> set (rows df)" for r
    proof (cases "present vc r")
      case False
      then show ?thesis by simp
    next
      case p: True
      have "get_cell r ''client_name'' = i \<longleftrightarrow>
            get_client_short_name u (get_cell r ''client_name'') = Inr client"
      proof
        assume "get_cell r ''client_name'' = i"
        then show "get_client_short_name u (get_cell r ''client_name'') = Inr client"
          using short [OF i] ci by simp
      next
        assume a: "get_client_short_name u (get_cell r ''client_name'') = Inr client"
        have "get_client_short_name u (get_cell r ''client_name'') =
              get_client_short_name u (get_cell r0 ''client_name'')"
          using a r0 short [OF i] ci by simp
        with inj r r0 p have "get_cell r ''client_name'' = get_cell r0 ''client_name''"
          by blast
        with r0 show "get_cell r ''client_name'' = i" by simp
      qed
      then show ?thesis by blast
    qed
    have cnt: "count_list ?ps (i, v) = pair_rows u df vc client v"
      unfolding count_key_pairs pair_rows_def
      by (rule arg_cong [where f = length], rule filter_cong [OF refl]) (use same in blast)
    show ?thesis
      using m ex1 vcols cnt by (simp add: table_cell_def map_of_row)
  qed
  from gen cell show ?thesis by blast
qed



lemma coupon_shopa_batch:
  "generate_coupon_purchased_table u shopa_batch =
     Some \<lparr>ctitle = ''No. of Coupon Purchased'',
       cdata = [(''PLK'', [(Num 10, 0), (Num 20, 1)]), (''ShopA'', [(Num 10, 2), (Num 20, 1)])],
       ccolumns = [Str ''Client'', Num 10, Num 20]\<rparr>"
  by code_simp

theorem coupon_purchased_cells_witness:
  "\<forall>u. \<exists>t. generate_coupon_purchased_table u shopa_batch = Some t \<and>
       table_cell t ''ShopA'' (Num 10) = Some 2 \<and>
       table_cell t ''ShopA'' (Num 20) = Some 1 \<and>
       table_cell t ''PLK'' (Num 10) = Some 0"
proof
  fix u
  have h1: "\<not> empty_frame shopa_batch" by code_simp
  have h2: "''client_name'' \<in> set (columns shopa_batch)" by code_simp
  have h3: "''CouponValue'' = coupon_value_col (columns shopa_batch)" by code_simp
  have h4: "''CouponValue'' \<in> set (columns shopa_batch)" by code_simp
  have hn: "\<not> ((\<exists>r \<in> set (rows shopa_batch). present ''CouponValue'' r \<and>
                  get_cell r ''CouponValue'' = Str ''index'') \<and>
               (\<exists>r \<in> set (rows shopa_batch). present ''CouponValue'' r \<and>
                  get_cell r ''CouponValue'' = Str ''level_0''))"
    by code_simp
  have h5: "\<exists>r \<in> set (rows shopa_batch). present ''CouponValue'' r" by code_simp
  have h6: "\<forall>r \<in> set (rows shopa_batch). present ''CouponValue'' r \<longrightarrow>
               \<not> isl (get_client_short_name u (get_cell r ''client_name''))" by code_simp
  have h7: "\<forall>r1 \<in> set (rows shopa_batch). \<forall>r2 \<in> set (rows shopa_batch).
               present ''CouponValue'' r1 \<and> present ''CouponValue'' r2 \<and>
               get_client_short_name u (get_cell r1 ''client_name'') =
               get_client_short_name u (get_cell r2 ''client_name'') \<longrightarrow>
               get_cell r1 ''client_name'' = get_cell r2 ''client_name''" by code_simp
  have a: "\<exists>r \<in> set (rows shopa_batch). present ''CouponValue'' r \<and>
             get_client_short_name u (get_cell r ''client_name'') = Inr ''ShopA''" by code_simp
  have b: "\<exists>r \<in> set (rows shopa_batch). present ''CouponValue'' r \<and>
             get_client_short_name u (get_cell r ''client_name'') = Inr ''PLK''" by code_simp
  have c: "\<exists>r \<in> set (rows shopa_batch). present ''CouponValue'' r \<and>
             get_cell r ''CouponValue'' = Num 10" by code_simp
  have d: "\<exists>r \<in> set (rows shopa_batch). present ''CouponValue'' r \<and>
             get_cell r ''CouponValue'' = Num 20" by code_simp
  have p1: "pair_rows u shopa_batch ''CouponValue'' ''ShopA'' (Num 10) = 2" by code_simp
  have p2: "pair_rows u shopa_batch ''CouponValue'' ''ShopA'' (Num 20) = 1" by code_simp
  have p3: "pair_rows u shopa_batch ''CouponValue'' ''PLK'' (Num 10) = 0" by code_simp
  from coupon_purchased_cells [OF h1 h2 h3 h4 hn h5 h6 h7]
  obtain t where g: "generate_coupon_purchased_table u shopa_batch = Some t"
    and cell: "\<And>client v. table_cell t client v =
              (if (\<exists>r \<in> set (rows shopa_batch). present ''CouponValue'' r \<and>
                     get_client_short_name u (get_cell r ''client_name'') = Inr client) \<and>
                  (\<exists>r \<in> set (rows shopa_batch). present ''CouponValue'' r \<and>
                     get_cell r ''CouponValue'' = v)
               then Some (pair_rows u shopa_batch ''CouponValue'' client v) else None)"
    by blast
  have "table_cell t ''ShopA'' (Num 10) = Some 2"
    unfolding cell using a c p1 by simp
  moreover have "table_cell t ''ShopA'' (Num 20) = Some 1"
    unfolding cell using a d p2 by simp
  moreover have "table_cell t ''PLK'' (Num 10) = Some 0"
    unfolding cell using b c p3 by simp
  ultimately show "\<exists>t. generate_coupon_purchased_table u shopa_batch = Some t \<and>
       table_cell t ''ShopA'' (Num 10) = Some 2 \<and>
       table_cell t ''ShopA'' (Num 20) = Some 1 \<and>
       table_cell t ''PLK'' (Num 10) = Some 0"
    using g by blast
qed

text \<open>
  Claim C2, as the specification states it, fails on a batch with a row that has no
  client name: the derived short name of that row is \<open>Unknown\<close>, and the table has no
  row \<open>Unknown\<close>, since grouping leaves rows with a missing key out.
\<close>

theorem coupon_purchased_misses_unknown:
  "\<forall>u. \<not> (\<forall>t. generate_coupon_purchased_table u shopa_batch = Some t \<longrightarrow>
         (\<forall>client v n. table_cell t client v = Some n \<longrightarrow>
            n = spec_pair_rows u shopa_batch ''CouponValue'' client v) \<and>
         (\<forall>r \<in> set (rows shopa_batch). \<forall>s.
            get_client_short_name u (get_cell r ''client_name'') = Inr s \<longrightarrow>
            table_cell t s (get_cell r ''CouponValue'') \<noteq> None))"
proof (intro allI notI)
  fix u
  let ?t = "\<lparr>ctitle = ''No. of Coupon Purchased'',
       cdata = [(''PLK'', [(Num 10, 0), (Num 20, 1)]), (''ShopA'', [(Num 10, 2), (Num 20, 1)])],
       ccolumns = [Str ''Client'', Num 10, Num 20]\<rparr>"
  let ?r = "[(''client_name'', NaN), (''CouponValue'', Num 20)]"
  assume "\<forall>t. generate_coupon_purchased_table u shopa_batch = Some t \<longrightarrow>
         (\<forall>client v n. table_cell t client v = Some n \<longrightarrow>
            n = spec_pair_rows u shopa_batch ''CouponValue'' client v) \<and>
         (\<forall>r \<in> set (rows shopa_batch). \<forall>s.
            get_client_short_name u (get_cell r ''client_name'') = Inr s \<longrightarrow>
            table_cell t s (get_cell r ''CouponValue'') \<noteq> None)"
  with coupon_shopa_batch [of u]
  have cov: "\<forall>r \<in> set (rows shopa_batch). \<forall>s.
            get_client_short_name u (get_cell r ''client_name'') = Inr s \<longrightarrow>
            table_cell ?t s (get_cell r ''CouponValue'') \<noteq> None"
    by blast
  have r: "?r \<in> set (rows shopa_batch)" by (simp add: shopa_batch_def)
  have s: "get_client_short_name u (get_cell ?r ''client_name'') = Inr ''Unknown''" by code_simp
  have v: "get_cell ?r ''CouponValue'' = Num 20" by code_simp
  have n: "table_cell ?t ''Unknown'' (Num 20) = None" by code_simp
  from cov r s have "table_cell ?t ''Unknown'' (get_cell ?r ''CouponValue'') \<noteq> None"
    by blast
  with v n show False by simp
qed

text \<open>When two grouped client names share a short name, \<open>to_dict('index')\<close> raises and
  no table is produced.\<close>

lemma coupon_purchased_sjs_batch: "generate_coupon_purchased_table u sjs_batch = None"
  by code_simp

lemma set_unique: "set (unique xs) = set xs"
  by (simp add: unique_def)

lemma length_combined_data:
  "length (combined_data left right) = max (length left) (length right) + 2"
  by (simp add: combined_data_def Let_def)

lemma nth_combined_data:
  "i < max (length left) (length right) + 2 \<Longrightarrow>
     combined_data left right ! i = combined_row left right i"
  by (simp add: combined_data_def Let_def del: upt_Suc)

lemma combined_data_padding_left:
  assumes "length left + 2 \<le> i" and "i < length (combined_data left right)"
  shows "data_of_coupon_used (combined_data left right ! i) = Str [] \<and>
         count_col (combined_data left right ! i) = Str []"
proof -
  from assms have "\<not> i - 2 < length left" "i \<noteq> 0" "i \<noteq> 1" by auto
  with assms(2) show ?thesis
    by (simp add: length_combined_data nth_combined_data combined_row_def Let_def)
qed

lemma combined_data_padding_right:
  assumes "length right + 2 \<le> i" and "i < length (combined_data left right)"
  shows "merchant_list (combined_data left right ! i) = Str [] \<and>
         tenant_col (combined_data left right ! i) = Str [] \<and>
         flag_col (combined_data left right ! i) = Str [] \<and>
         no_of_n (combined_data left right ! i) = Str []"
proof -
  from assms have "\<not> i - 2 < length right" "i \<noteq> 0" "i \<noteq> 1" by auto
  with assms(2) show ?thesis
    by (simp add: length_combined_data nth_combined_data combined_row_def Let_def)
qed

lemma in_set_update:
  "(a, b) \<in> set (AList.update k v al) \<Longrightarrow> (a, b) = (k, v) \<or> (a, b) \<in> set al"
  by (induction al) (auto split: if_splits)

lemma worksheets_loop_sheets:
  "(name, sheet) \<in> set (worksheets_loop df mc acc ms) \<Longrightarrow>
     (name, sheet) \<in> set acc \<or>
     (\<exists>market \<in> set ms. market_sheet df mc market = Inr (Some sheet) \<and> name = sheet_name market)"
proof (induction ms arbitrary: acc)
  case Nil
  then show ?case by simp
next
  case (Cons market ms)
  show ?case
  proof (cases "market_sheet df mc market")
    case (Inl e)
    with Cons.prems show ?thesis by simp
  next
    case (Inr res)
    show ?thesis
    proof (cases res)
      case None
      with Inr Cons.prems Cons.IH [of acc] show ?thesis by auto
    next
      case (Some market_df)
      with Inr Cons.prems
      have "(name, sheet) \<in> set (worksheets_loop df mc
              (AList.update (sheet_name market) market_df acc) ms)" by simp
      from Cons.IH [OF this] show ?thesis
      proof
        assume "(name, sheet) \<in> set (AList.update (sheet_name market) market_df acc)"
        from in_set_update [OF this] show ?thesis
          using Inr Some by auto
      next
        assume "\<exists>market \<in> set ms. market_sheet df mc market = Inr (Some sheet) \<and>
                  name = sheet_name market"
        then show ?thesis by auto
      qed
    qed
  qed
qed

lemma generated_sheet:
  assumes "(name, sheet) \<in> set (generate_market_worksheets df m)"
  shows "\<exists>mc market right.
           worksheets_market_col (columns df) = Some mc \<and>
           market \<noteq> NaN \<and> market \<in> set (col df mc) \<and>
           name = sheet_name market \<and>
           merchant_rows df mc market = Inr right \<and>
           sheet = combined_data (left_data df mc market) right"
proof -
  from assms obtain mc where mc: "worksheets_market_col (columns df) = Some mc"
    and l: "(name, sheet) \<in> set (worksheets_loop df mc [] (unique (dropna (col df mc))))"
    by (cases "worksheets_market_col (columns df)")
       (auto simp: generate_market_worksheets_def split: if_splits)
  from worksheets_loop_sheets [OF l] obtain market where
    mk: "market \<in> set (unique (dropna (col df mc)))"
    and ms: "market_sheet df mc market = Inr (Some sheet)" and n: "name = sheet_name market"
    by auto
  from mk have "market \<noteq> NaN" "market \<in> set (col df mc)"
    by (auto simp: set_unique dropna_def isna_def)
  moreover from ms obtain right where "merchant_rows df mc market = Inr right"
    "sheet = combined_data (left_data df mc market) right"
    by (auto simp: market_sheet_def split: if_splits sum.splits)
  ultimately show ?thesis using mc n by blast
qed

lemma merchant_rows_flags:
  assumes "merchant_rows df mc market = Inr right" and "i < length right"
  shows "mr_flag (right ! i) = ''Y'' \<and> mr_market (right ! i) = market \<and>
         (\<exists>r \<in> set (rows df). get_cell r mc = market \<and> get_cell r ''ShopName'' \<noteq> NaN \<and>
            mr_tenant (right ! i) = display_tenant (get_cell r ''ShopName''))"
proof -
  let ?all = "unique (dropna (col (market_data df mc market) ''ShopName''))"
  let ?f = "\<lambda>tenant.
     \<lparr>mr_market = market,
      mr_tenant = display_tenant tenant,
      mr_flag = (if tenant \<in> set ?all then ''Y'' else ''N'')\<rparr>"
  from assms(1) have r: "right = map ?f (sort_key cell_key ?all)"
    by (auto simp: merchant_rows_def market_data_def py_sorted_def Let_def split: if_splits)
  let ?t = "sort_key cell_key ?all ! i"
  from assms(2) r have i: "i < length (sort_key cell_key ?all)" by simp
  then have "?t \<in> set (sort_key cell_key ?all)" by (rule nth_mem)
  then have t: "?t \<in> set ?all" by simp
  then obtain row where row: "row \<in> set (rows df)" "get_cell row mc = market"
    "get_cell row ''ShopName'' = ?t" "?t \<noteq> NaN"
    by (auto simp: set_unique dropna_def isna_def col_def market_data_def)
  from r i have "right ! i = ?f ?t" by simp
  with t row show ?thesis by auto
qed


lemma length_left_data:
  "merchant_rows df mc market = Inr right \<Longrightarrow> length (left_data df mc market) = length right"
  by (auto simp: merchant_rows_def left_data_def value_counts_def length_sort_values_desc
      market_data_def py_sorted_def Let_def split: if_splits)

text \<open>
  Claim C9. The combined table of a left block and a right block has max(left rows,
  right rows) + 2 rows, and in every row beyond the end of a block the cells of that
  block are the empty string. Every market worksheet produced is the combined table of
  the usage counts and the merchant list of one market of the ledger.
\<close>

theorem market_sheet_shape:
  "(length (combined_data left right) = max (length left) (length right) + 2 \<and>
    (length left + 2 \<le> i \<and> i < length (combined_data left right) \<longrightarrow>
       data_of_coupon_used (combined_data left right ! i) = Str [] \<and>
       count_col (combined_data left right ! i) = Str []) \<and>
    (length right + 2 \<le> i \<and> i < length (combined_data left right) \<longrightarrow>
       merchant_list (combined_data left right ! i) = Str [] \<and>
       tenant_col (combined_data left right ! i) = Str [] \<and>
       flag_col (combined_data left right ! i) = Str [] \<and>
       no_of_n (combined_data left right ! i) = Str [])) \<and>
   ((name, sheet) \<in> set (generate_market_worksheets df m) \<longrightarrow>
      (\<exists>mc market merchants.
         worksheets_market_col (columns df) = Some mc \<and> market \<in> set (col df mc) \<and>
         merchant_rows df mc market = Inr merchants \<and>
         sheet = combined_data (left_data df mc market) merchants \<and>
         length sheet = max (length (left_data df mc market)) (length merchants) + 2))"
proof -
  have "\<exists>mc market merchants.
         worksheets_market_col (columns df) = Some mc \<and> market \<in> set (col df mc) \<and>
         merchant_rows df mc market = Inr merchants \<and>
         sheet = combined_data (left_data df mc market) merchants \<and>
         length sheet = max (length (left_data df mc market)) (length merchants) + 2"
    if "(name, sheet) \<in> set (generate_market_worksheets df m)"
  proof -
    from generated_sheet [OF that] obtain mc market right where
      "worksheets_market_col (columns df) = Some mc" "market \<in> set (col df mc)"
      "merchant_rows df mc market = Inr right"
      "sheet = combined_data (left_data df mc market) right"
      by blast
    moreover from this
    have "length sheet = max (length (left_data df mc market)) (length right) + 2"
      by (simp add: length_combined_data)
    ultimately show ?thesis by blast
  qed
  then show ?thesis
    using combined_data_padding_left [of left i right]
      combined_data_padding_right [of right i left]
    by (simp add: length_combined_data)
qed

text \<open>
  Claim C4. In every market worksheet produced, the merchant rows are the rows from
  the third on; every one of them carries the flag Y, and its merchant has a usage row
  in that market of the ledger. The header cell \<open>No. of "N"\<close> is 0.
\<close>

theorem coverage_flags_all_yes:
  assumes "(name, sheet) \<in> set (generate_market_worksheets df m)"
  shows "no_of_n (sheet ! 1) = Num 0 \<and>
         (\<exists>mc market merchants.
            worksheets_market_col (columns df) = Some mc \<and>
            merchant_rows df mc market = Inr merchants \<and>
            length sheet = length merchants + 2 \<and>
            (\<forall>i < length merchants.
               flag_col (sheet ! (i + 2)) = Str ''Y'' \<and>
               merchant_list (sheet ! (i + 2)) = market \<and>
               (\<exists>r \<in> set (rows df).
                  get_cell r mc = market \<and> get_cell r ''ShopName'' \<noteq> NaN \<and>
                  tenant_col (sheet ! (i + 2)) = Str (display_tenant (get_cell r ''ShopName'')))))"
proof -
  from generated_sheet [OF assms] obtain mc market right where
    mc: "worksheets_market_col (columns df) = Some mc"
    and mr: "merchant_rows df mc market = Inr right"
    and sh: "sheet = combined_data (left_data df mc market) right"
    by blast
  let ?left = "left_data df mc market"
  have ll: "length ?left = length right" by (rule length_left_data [OF mr])
  have len: "length sheet = length right + 2"
    by (simp add: sh length_combined_data ll)
  have yes: "mr_flag x = ''Y''" if "x \<in> set right" for x
    using that merchant_rows_flags [OF mr] by (auto simp: in_set_conv_nth)
  then have "filter (\<lambda>x. mr_flag x = ''N'') right = []"
    by (auto simp: filter_empty_conv)
  then have n: "no_of_n (sheet ! 1) = Num 0"
    by (simp add: sh nth_combined_data combined_row_def Let_def)
  have rowi: "flag_col (sheet ! (i + 2)) = Str ''Y'' \<and>
               merchant_list (sheet ! (i + 2)) = market \<and>
               (\<exists>r \<in> set (rows df).
                  get_cell r mc = market \<and> get_cell r ''ShopName'' \<noteq> NaN \<and>
                  tenant_col (sheet ! (i + 2)) = Str (display_tenant (get_cell r ''ShopName'')))"
    if i: "i < length right" for i
  proof -
    from i have "sheet ! (i + 2) = combined_row ?left right (i + 2)"
      by (simp add: sh nth_combined_data ll)
    with i have "flag_col (sheet ! (i + 2)) = Str (mr_flag (right ! i))"
      "merchant_list (sheet ! (i + 2)) = mr_market (right ! i)"
      "tenant_col (sheet ! (i + 2)) = Str (mr_tenant (right ! i))"
      by (simp_all add: combined_row_def Let_def)
    with merchant_rows_flags [OF mr i] show ?thesis by auto
  qed
  from n mc mr len rowi show ?thesis by blast
qed

lemma sheet_A_generated:
  "(''A'', sheet_A) \<in> set (generate_market_worksheets two_markets Map.empty)"
  by code_simp

theorem market_sheet_shape_witness:
  "(''A'', sheet_A) \<in> set (generate_market_worksheets two_markets Map.empty) \<and>
   (\<exists>mc market merchants.
      merchant_rows two_markets mc market = Inr merchants \<and>
      sheet_A = combined_data (left_data two_markets mc market) merchants \<and>
      length sheet_A = max (length (left_data two_markets mc market)) (length merchants) + 2) \<and>
   length (combined_data [(Str ''S1'', 1)] []) = 3 \<and>
   tenant_col (combined_data [(Str ''S1'', 1)] [] ! 2) = Str [] \<and>
   flag_col (combined_data [(Str ''S1'', 1)] [] ! 2) = Str []"
proof -
  have h: "length ([] :: merchant_row list) + 2 \<le> 2 \<and>
           2 < length (combined_data [(Str ''S1'', 1)] [])"
    by (simp add: combined_data_def)
  from market_sheet_shape [of "[(Str ''S1'', 1)]" "[]" 2 "''A''" sheet_A two_markets Map.empty]
    sheet_A_generated h
  show ?thesis by auto
qed

theorem coverage_flags_all_yes_witness:
  "(''A'', sheet_A) \<in> set (generate_market_worksheets two_markets Map.empty) \<and>
   no_of_n (sheet_A ! 1) = Num 0 \<and> flag_col (sheet_A ! 2) = Str ''Y''"
proof -
  note t = coverage_flags_all_yes [OF sheet_A_generated]
  from t have n: "no_of_n (sheet_A ! 1) = Num 0" by (rule conjunct1)
  from t obtain mc market and merchants :: "merchant_row list" where
    l: "length sheet_A = length merchants + 2"
    and f: "\<forall>i < length merchants.
              flag_col (sheet_A ! (i + 2)) = Str ''Y'' \<and>
              merchant_list (sheet_A ! (i + 2)) = market \<and>
              (\<exists>r \<in> set (rows two_markets).
                 get_cell r mc = market \<and> get_cell r ''ShopName'' \<noteq> NaN \<and>
                 tenant_col (sheet_A ! (i + 2)) = Str (display_tenant (get_cell r ''ShopName'')))"
    by blast
  have "length sheet_A = 3" by (simp add: sheet_A_def)
  with l have "0 < length merchants" by arith
  with f have "flag_col (sheet_A ! (0 + 2)) = Str ''Y''" by blast
  then have "flag_col (sheet_A ! 2) = Str ''Y''" by (simp only: add_0)
  with n sheet_A_generated show ?thesis by blast
qed

lemma unique_distinct: "distinct xs \<Longrightarrow> unique xs = xs"
  by (simp add: unique_def distinct_remdups_id)

lemma sorted_sorted_keys: "sorted (map cell_key (sorted_keys cs))"
  by (simp add: sorted_keys_def)


lemma py_sorted_sorted_keys:
  assumes "\<not> ((\<exists>c \<in> set cs. is_str c) \<and> (\<exists>c \<in> set cs. is_num c))"
  shows "py_sorted (unique (sorted_keys cs)) = Inr (sorted_keys cs)"
proof -
  have "\<not> ((\<exists>c \<in> set (sorted_keys cs). is_str c) \<and> (\<exists>c \<in> set (sorted_keys cs). is_num c))"
    using assms by (auto simp: set_sorted_keys)
  then show ?thesis
    by (simp add: py_sorted_def unique_distinct distinct_sorted_keys
        sort_key_id_if_sorted sorted_sorted_keys)
qed

lemma filter_totals:
  "market \<in> set ks \<Longrightarrow>
     \<exists>rest. filter (\<lambda>(m, n). m = market) (map (\<lambda>k. (k, f k)) ks) = (market, f market) # rest"
  by (induction ks) auto

lemma pivot_rows_blocks:
  assumes "set ms \<subseteq> set ks"
  shows "pivot_rows (map (\<lambda>k. (k, f k)) ks) td ms =
     Inr (concat (map (\<lambda>market.
        \<lparr>Market = market, Tenant = Str [], Count_of_coupon_uid = f market\<rparr> #
        map (\<lambda>(s, n). \<lparr>Market = Str [], Tenant = s, Count_of_coupon_uid = n\<rparr>)
          (market_tenants td market)) ms))"
  using assms
proof (induction ms)
  case Nil
  then show ?case by simp
next
  case (Cons market ms)
  then have "market \<in> set ks" by simp
  from filter_totals [OF this, of f] obtain rest where
    "filter (\<lambda>(m, n). m = market) (map (\<lambda>k. (k, f k)) ks) = (market, f market) # rest" ..
  with Cons show ?case by simp
qed


lemma strict_sorted_markets:
  assumes "sorted (map cell_key ms)" and "distinct ms" and "\<forall>c \<in> set ms. c \<noteq> NaN"
    and "\<not> ((\<exists>c \<in> set ms. is_str c) \<and> (\<exists>c \<in> set ms. is_num c))"
  shows "sorted_wrt market_less ms"
  using assms
proof (induction ms)
  case Nil
  then show ?case by simp
next
  case (Cons a ms)
  have "market_less a b" if b: "b \<in> set ms" for b
  proof -
    from Cons.prems(1) b have le: "cell_key a \<le> cell_key b" by simp
    from Cons.prems(2) b have ne: "a \<noteq> b" by auto
    from Cons.prems(3) b have nn: "a \<noteq> NaN" "b \<noteq> NaN" by auto
    from Cons.prems(4) b have "\<not> (is_str a \<and> is_num b)" "\<not> (is_num a \<and> is_str b)"
      by auto
    with le ne nn show ?thesis
      by (cases a; cases b) (auto simp: is_str_def is_num_def)
  qed
  moreover from Cons have "sorted_wrt market_less ms" by auto
  ultimately show ?case by simp
qed

lemma set_tenant_pairs:
  "set (tenant_pairs df mc) =
     {(get_cell r mc, get_cell r ''ShopName'') | r.
        r \<in> set (rows df) \<and> get_cell r mc \<noteq> NaN \<and> get_cell r ''ShopName'' \<noteq> NaN}"
  by (auto simp: tenant_pairs_def isna_def)

lemma count_tenant_pairs:
  assumes "m \<noteq> NaN" and "s \<noteq> NaN"
  shows "count_list (tenant_pairs df mc) (m, s) = usage_rows df mc m s"
proof -
  have "count_list (tenant_pairs df mc) (m, s) =
        length (filter (\<lambda>r. (m, s) = (get_cell r mc, get_cell r ''ShopName''))
          (filter (\<lambda>r. get_cell r mc \<noteq> NaN \<and> get_cell r ''ShopName'' \<noteq> NaN) (rows df)))"
    by (simp add: count_list_eq_length_filter tenant_pairs_def filter_map comp_def isna_def
        case_prod_unfold)
  also have "\<dots> = length (filter (\<lambda>r. get_cell r mc = m \<and> get_cell r ''ShopName'' = s) (rows df))"
    using assms by (auto intro!: arg_cong [where f = length] filter_cong)
  finally show ?thesis by (simp add: usage_rows_def)
qed

lemma set_sort_values_desc: "set (sort_values_desc xs) = set xs"
  by (simp add: sort_values_desc_def)

lemma market_tenants_spec:
  fixes df :: frame and mc :: string and market :: cell
  defines "ts \<equiv> market_tenants (tenant_data df mc) market"
  assumes m: "market \<noteq> NaN"
  shows "sorted_wrt (\<lambda>a b. snd b \<le> snd a) ts"
    and "length ts = card {s. s \<noteq> NaN \<and>
           (\<exists>r \<in> set (rows df). get_cell r mc = market \<and> get_cell r ''ShopName'' = s)}"
    and "\<forall>(t, n) \<in> set ts. \<exists>s. s \<noteq> NaN \<and> t = display_alias s \<and>
           n = usage_rows df mc market s \<and> 0 < n"
proof -
  let ?ps = "tenant_pairs df mc"
  let ?keys = "sort_key (\<lambda>(m, s). (cell_key m, cell_key s)) (remdups ?ps)"
  let ?sel = "filter (\<lambda>(m, s). m = market) ?keys"
  let ?g = "\<lambda>(m, s). (display_alias s, count_list ?ps (m, s))"
  have ts: "ts = sort_values_desc (map ?g ?sel)"
    by (simp add: ts_def market_tenants_def tenant_data_def Let_def filter_map comp_def
        case_prod_unfold)
  from sorted_sort_values_desc [of "map ?g ?sel"]
  show "sorted_wrt (\<lambda>a b. snd b \<le> snd a) ts"
    by (simp add: ts sorted_wrt_map)
  have sel: "set ?sel = Pair market ` {s. (market, s) \<in> set ?ps}"
    by auto
  have shops: "{s. (market, s) \<in> set ?ps} =
      {s. s \<noteq> NaN \<and> (\<exists>r \<in> set (rows df). get_cell r mc = market \<and> get_cell r ''ShopName'' = s)}"
    using m by (auto simp: set_tenant_pairs)
  have "length ts = length ?sel"
    by (simp add: ts length_sort_values_desc)
  also have "\<dots> = card (set ?sel)"
  proof -
    have "distinct ?sel" by simp
    then show ?thesis by (rule distinct_card [symmetric])
  qed
  also have "\<dots> = card {s. (market, s) \<in> set ?ps}"
    unfolding sel by (rule card_image) (simp add: inj_on_def)
  finally show "length ts = card {s. s \<noteq> NaN \<and>
           (\<exists>r \<in> set (rows df). get_cell r mc = market \<and> get_cell r ''ShopName'' = s)}"
    by (simp add: shops)
  show "\<forall>(t, n) \<in> set ts. \<exists>s. s \<noteq> NaN \<and> t = display_alias s \<and>
           n = usage_rows df mc market s \<and> 0 < n"
  proof (clarify)
    fix t n assume "(t, n) \<in> set ts"
    then have "(t, n) \<in> ?g ` set ?sel"
      by (simp add: ts set_sort_values_desc)
    then obtain s where s: "(market, s) \<in> set ?ps" and t: "t = display_alias s"
      and n: "n = count_list ?ps (market, s)"
      unfolding sel by auto
    from s have sn: "s \<noteq> NaN" by (auto simp: set_tenant_pairs)
    from s have "count_list ?ps (market, s) \<noteq> 0"
      by (simp add: count_list_0_iff)
    with n sn t count_tenant_pairs [OF m sn, of df mc]
    show "\<exists>s. s \<noteq> NaN \<and> t = display_alias s \<and> n = usage_rows df mc market s \<and> 0 < n"
      by auto
  qed
qed



text \<open>
  Claim C7, as the code has it. For a ledger with a resolvable market column and a
  merchant column, whose markets are all texts or all integers, the pivot output is
  produced and is a sequence of blocks, one per market of the ledger, in strictly
  ascending order of the markets: alphabetical for texts, numeric for integers. A
  block starts with a row holding the market, an empty merchant field and the number
  of ledger rows of the market; then comes one row per merchant of that market, with
  an empty market field, the merchant's display name and its number of rows in the
  market, the counts in non-increasing order.
\<close>

theorem pivot_blocks:
  assumes mc: "pivot_market_col (columns df) = Some mc"
    and shop: "''ShopName'' \<in> set (columns df)"
    and kind: "\<not> ((\<exists>c \<in> set (col df mc). is_str c) \<and> (\<exists>c \<in> set (col df mc). is_num c))"
  shows "\<exists>blocks.
     generate_pivot_worksheet df = Some (concat (map block_rows blocks)) \<and>
     sorted_wrt market_less (map fst blocks) \<and>
     fst ` set blocks = {m \<in> set (col df mc). m \<noteq> NaN} \<and>
     (\<forall>(m, tot, ts) \<in> set blocks.
        tot = count_list (col df mc) m \<and>
        sorted_wrt (\<lambda>a b. snd b \<le> snd a) ts \<and>
        length ts = card {s. s \<noteq> NaN \<and>
          (\<exists>r \<in> set (rows df). get_cell r mc = m \<and> get_cell r ''ShopName'' = s)} \<and>
        (\<forall>(t, n) \<in> set ts. \<exists>s. s \<noteq> NaN \<and> t = display_alias s \<and>
           n = usage_rows df mc m s \<and> 0 < n))"
proof -
  let ?cs = "col df mc"
  let ?ms = "sorted_keys ?cs"
  let ?td = "tenant_data df mc"
  let ?B = "\<lambda>market. (market, count_list ?cs market, market_tenants ?td market)"
  let ?F = "\<lambda>market.
        \<lparr>Market = market, Tenant = Str [], Count_of_coupon_uid = count_list ?cs market\<rparr> #
        map (\<lambda>(s, n). \<lparr>Market = Str [], Tenant = s, Count_of_coupon_uid = n\<rparr>)
          (market_tenants ?td market)"
  let ?blocks = "map ?B ?ms"
  have ms: "c \<noteq> NaN" if "c \<in> set ?ms" for c
    using that by (auto simp: set_sorted_keys)
  have totals: "groupby_size ?cs = map (\<lambda>k. (k, count_list ?cs k)) ?ms"
    by (simp add: groupby_size_def)
  have fst_totals: "map fst (groupby_size ?cs) = ?ms"
    by (simp add: groupby_size_def comp_def)
  have rows: "pivot_rows (groupby_size ?cs) ?td ?ms = Inr (concat (map ?F ?ms))"
    unfolding totals by (rule pivot_rows_blocks) simp
  have gen: "generate_pivot_worksheet df = Some (concat (map ?F ?ms))"
    using mc shop
    by (simp add: generate_pivot_worksheet_def Let_def fst_totals
        py_sorted_sorted_keys [OF kind] rows)
  have "map ?F ?ms = map block_rows ?blocks"
    by (simp add: block_rows_def)
  with gen have 1: "generate_pivot_worksheet df = Some (concat (map block_rows ?blocks))"
    by simp
  have fb: "map fst ?blocks = ?ms"
    by (simp add: comp_def)
  have "sorted_wrt market_less ?ms"
  proof (rule strict_sorted_markets)
    show "\<not> ((\<exists>c \<in> set ?ms. is_str c) \<and> (\<exists>c \<in> set ?ms. is_num c))"
      using kind by (auto simp: set_sorted_keys)
  qed (use ms in \<open>simp_all add: sorted_sorted_keys distinct_sorted_keys\<close>)
  then have 2: "sorted_wrt market_less (map fst ?blocks)" by (simp only: fb)
  have "set (map fst ?blocks) = {m \<in> set ?cs. m \<noteq> NaN}"
    by (simp only: fb set_sorted_keys)
  then have 3: "fst ` set ?blocks = {m \<in> set ?cs. m \<noteq> NaN}"
    by (simp only: set_map)
  have 4: "\<forall>(m, tot, ts) \<in> set ?blocks.
        tot = count_list ?cs m \<and>
        sorted_wrt (\<lambda>a b. snd b \<le> snd a) ts \<and>
        length ts = card {s. s \<noteq> NaN \<and>
          (\<exists>r \<in> set (rows df). get_cell r mc = m \<and> get_cell r ''ShopName'' = s)} \<and>
        (\<forall>(t, n) \<in> set ts. \<exists>s. s \<noteq> NaN \<and> t = display_alias s \<and>
           n = usage_rows df mc m s \<and> 0 < n)"
  proof (clarify)
    fix m tot ts assume "(m, tot, ts) \<in> set ?blocks"
    then have c: "m \<in> set ?ms" and tot: "tot = count_list ?cs m"
      and ts: "ts = market_tenants ?td m"
      by auto
    from ms [OF c] have cn: "m \<noteq> NaN" .
    from market_tenants_spec [OF cn, of df mc] tot ts
    show "tot = count_list ?cs m \<and>
        sorted_wrt (\<lambda>a b. snd b \<le> snd a) ts \<and>
        length ts = card {s. s \<noteq> NaN \<and>
          (\<exists>r \<in> set (rows df). get_cell r mc = m \<and> get_cell r ''ShopName'' = s)} \<and>
        (\<forall>(t, n) \<in> set ts. \<exists>s. s \<noteq> NaN \<and> t = display_alias s \<and>
           n = usage_rows df mc m s \<and> 0 < n)"
      by simp
  qed
  from 1 2 3 4 show ?thesis by blast
qed

lemma pivot_of_pivot_ledger:
  "generate_pivot_worksheet pivot_ledger =
     Some [\<lparr>Market = Str ''marketA'', Tenant = Str [], Count_of_coupon_uid = 1\<rparr>,
           \<lparr>Market = Str [], Tenant = Str ''merchantC'', Count_of_coupon_uid = 1\<rparr>,
           \<lparr>Market = Str ''marketX'', Tenant = Str [], Count_of_coupon_uid = 3\<rparr>,
           \<lparr>Market = Str [], Tenant = Str ''merchantA'', Count_of_coupon_uid = 2\<rparr>,
           \<lparr>Market = Str [], Tenant = Str ''merchantB'', Count_of_coupon_uid = 1\<rparr>]"
  by code_simp

theorem pivot_blocks_witness:
  "pivot_market_col (columns pivot_ledger) = Some ''Market'' \<and>
   ''ShopName'' \<in> set (columns pivot_ledger) \<and>
   (\<exists>blocks.
      concat (map block_rows blocks) =
        [\<lparr>Market = Str ''marketA'', Tenant = Str [], Count_of_coupon_uid = 1\<rparr>,
         \<lparr>Market = Str [], Tenant = Str ''merchantC'', Count_of_coupon_uid = 1\<rparr>,
         \<lparr>Market = Str ''marketX'', Tenant = Str [], Count_of_coupon_uid = 3\<rparr>,
         \<lparr>Market = Str [], Tenant = Str ''merchantA'', Count_of_coupon_uid = 2\<rparr>,
         \<lparr>Market = Str [], Tenant = Str ''merchantB'', Count_of_coupon_uid = 1\<rparr>] \<and>
      sorted_wrt market_less (map fst blocks) \<and>
      fst ` set blocks = {Str ''marketA'', Str ''marketX''})"
proof -
  have h1: "pivot_market_col (columns pivot_ledger) = Some ''Market''" by code_simp
  have h2: "''ShopName'' \<in> set (columns pivot_ledger)" by code_simp
  have h3: "\<not> ((\<exists>c \<in> set (col pivot_ledger ''Market''). is_str c) \<and>
               (\<exists>c \<in> set (col pivot_ledger ''Market''). is_num c))" by code_simp
  have m: "{m \<in> set (col pivot_ledger ''Market''). m \<noteq> NaN} = {Str ''marketA'', Str ''marketX''}"
    by (auto simp: col_def pivot_ledger_def get_cell_def)
  from pivot_blocks [OF h1 h2 h3] obtain blocks where
    "generate_pivot_worksheet pivot_ledger = Some (concat (map block_rows blocks))"
    "sorted_wrt market_less (map fst blocks)"
    "fst ` set blocks = {m \<in> set (col pivot_ledger ''Market''). m \<noteq> NaN}"
    by blast
  with pivot_of_pivot_ledger h1 h2 m show ?thesis by auto
qed

lemma pivot_of_code_ledger:
  "generate_pivot_worksheet code_ledger =
     Some [\<lparr>Market = Num 9, Tenant = Str [], Count_of_coupon_uid = 1\<rparr>,
           \<lparr>Market = Str [], Tenant = Str ''merchantB'', Count_of_coupon_uid = 1\<rparr>,
           \<lparr>Market = Num 10, Tenant = Str [], Count_of_coupon_uid = 1\<rparr>,
           \<lparr>Market = Str [], Tenant = Str ''merchantA'', Count_of_coupon_uid = 1\<rparr>]"
  by code_simp

text \<open>
  Claim C7, as the specification states it, asks for alphabetical order of the markets
  of every ledger. With the integer market codes 10 and 9 the blocks come in the order
  9, 10, and as names 10 is before 9.
\<close>

theorem pivot_codes_not_alphabetical:
  "\<not> (\<forall>out. generate_pivot_worksheet code_ledger = Some out \<longrightarrow>
         sorted (pivot_market_names out))"
proof
  assume "\<forall>out. generate_pivot_worksheet code_ledger = Some out \<longrightarrow>
            sorted (pivot_market_names out)"
  with pivot_of_code_ledger
  have "sorted (pivot_market_names
     [\<lparr>Market = Num 9, Tenant = Str [], Count_of_coupon_uid = 1\<rparr>,
      \<lparr>Market = Str [], Tenant = Str ''merchantB'', Count_of_coupon_uid = 1\<rparr>,
      \<lparr>Market = Num 10, Tenant = Str [], Count_of_coupon_uid = 1\<rparr>,
      \<lparr>Market = Str [], Tenant = Str ''merchantA'', Count_of_coupon_uid = 1\<rparr>])"
    by blast
  moreover have "pivot_market_names
     [\<lparr>Market = Num 9, Tenant = Str [], Count_of_coupon_uid = 1\<rparr>,
      \<lparr>Market = Str [], Tenant = Str ''merchantB'', Count_of_coupon_uid = 1\<rparr>,
      \<lparr>Market = Num 10, Tenant = Str [], Count_of_coupon_uid = 1\<rparr>,
      \<lparr>Market = Str [], Tenant = Str ''merchantA'', Count_of_coupon_uid = 1\<rparr>] = [''9'', ''10'']"
    by code_simp
  moreover have "\<not> sorted [''9'', ''10'']"
    by code_simp
  ultimately show False by simp
qed

text \<open>On a market column that mixes texts and integers \<open>sorted\<close> raises, and no pivot
  output is produced.\<close>

lemma pivot_of_mixed_ledger: "generate_pivot_worksheet mixed_ledger = None"
  by code_simp

end
